theory Spec2Isabelle
  imports Complex_Main
begin

section \<open>JavaScript values as the extension sees them\<close>

text \<open>
  The extension (\<^verbatim>\<open>src/ai-copilot-reviewer/src/extension.js\<close>) works on values that come
  out of \<^verbatim>\<open>JSON.parse\<close> and out of the HTTP client: null, booleans, numbers, strings,
  arrays and objects. \<^verbatim>\<open>undefined\<close> (a missing property) is \<open>None\<close> of
  \<open>jsvalue option\<close>.

  Strings are lists of code units; one \<open>char\<close> stands for one UTF-16 code unit below
  256, so \<open>length\<close> is JavaScript's \<^verbatim>\<open>.length\<close> on such text. Numbers are rationals:
  the arithmetic of the extension (\<^verbatim>\<open>- 1\<close>, \<^verbatim>\<open>+ startLine\<close>, \<^verbatim>\<open>Math.min\<close>, \<^verbatim>\<open>Math.max\<close>) is
  exact on the integers below \<open>2^53\<close> that line numbers are; rounding of doubles and the
  infinities are not modelled. \<^verbatim>\<open>NaN\<close> is modelled, since it is what a non-numeric line
  becomes.
\<close>

datatype jsvalue =
    JNull
  | JBool bool
  | JNum rat
  | JStr string
  | JArr "jsvalue list"
  | JObj "(string \<times> jsvalue) list"

datatype jsnum = Num rat | NaN

datatype js_error =
    TypeError
  | SyntaxError
  | IllegalArgument
  | AxiosError "string option" string

text \<open>Truthiness, as \<^verbatim>\<open>||\<close>, \<^verbatim>\<open>&&\<close>, \<^verbatim>\<open>!\<close> and \<^verbatim>\<open>if\<close> test it.\<close>

fun truthy :: "jsvalue option \<Rightarrow> bool" where
  "truthy None = False"
| "truthy (Some JNull) = False"
| "truthy (Some (JBool b)) = b"
| "truthy (Some (JNum r)) = (r \<noteq> 0)"
| "truthy (Some (JStr s)) = (s \<noteq> [])"
| "truthy (Some (JArr xs)) = True"
| "truthy (Some (JObj kvs)) = True"

text \<open>
  Property access \<^verbatim>\<open>base.name\<close>. On \<^verbatim>\<open>undefined\<close> and \<^verbatim>\<open>null\<close> it throws a TypeError.
  An object parsed from JSON has its own keys only (the last of duplicate keys wins);
  arrays and strings have \<^verbatim>\<open>length\<close>; none of the other names the extension reads
  (\<^verbatim>\<open>line\<close>, \<^verbatim>\<open>message\<close>, \<^verbatim>\<open>severity\<close>, \<^verbatim>\<open>candidates\<close>, \<^verbatim>\<open>content\<close>, \<^verbatim>\<open>parts\<close>, \<^verbatim>\<open>text\<close>) is
  inherited from a prototype, so they are \<^verbatim>\<open>undefined\<close> on every other value.
\<close>

fun getProp :: "jsvalue option \<Rightarrow> string \<Rightarrow> js_error + jsvalue option" where
  "getProp None name = Inl TypeError"
| "getProp (Some JNull) name = Inl TypeError"
| "getProp (Some (JObj kvs)) name = Inr (map_of (rev kvs) name)"
| "getProp (Some (JArr xs)) name =
     Inr (if name = ''length'' then Some (JNum (of_nat (length xs))) else None)"
| "getProp (Some (JStr s)) name =
     Inr (if name = ''length'' then Some (JNum (of_nat (length s))) else None)"
| "getProp (Some (JBool b)) name = Inr None"
| "getProp (Some (JNum r)) name = Inr None"

text \<open>Index access \<^verbatim>\<open>base[0]\<close>, the only index the extension uses.\<close>

fun getIndex0 :: "jsvalue option \<Rightarrow> js_error + jsvalue option" where
  "getIndex0 None = Inl TypeError"
| "getIndex0 (Some JNull) = Inl TypeError"
| "getIndex0 (Some (JArr xs)) = Inr (case xs of [] \<Rightarrow> None | x # _ \<Rightarrow> Some x)"
| "getIndex0 (Some (JStr s)) = Inr (case s of [] \<Rightarrow> None | c # _ \<Rightarrow> Some (JStr [c]))"
| "getIndex0 (Some (JObj kvs)) = Inr (map_of (rev kvs) ''0'')"
| "getIndex0 (Some (JBool b)) = Inr None"
| "getIndex0 (Some (JNum r)) = Inr None"

subsection \<open>Conversion to a number\<close>

definition is_digit :: "char \<Rightarrow> bool" where
  "is_digit c = (48 \<le> (of_char c :: nat) \<and> (of_char c :: nat) \<le> 57)"

definition decimal_value :: "string \<Rightarrow> nat" where
  "decimal_value s = foldl (\<lambda>acc c. 10 * acc + (of_char c - 48)) 0 s"

text \<open>
  \<^verbatim>\<open>ToNumber\<close> on a string: the empty string is 0, a string of decimal digits is its
  value, and a string with no numeric reading (such as \<^verbatim>\<open>"abc"\<close>) is \<^verbatim>\<open>NaN\<close>. The other
  numeric readings of ECMAScript's StringToNumber (surrounding white space, a sign, a
  fraction, an exponent, the \<^verbatim>\<open>0x\<close>/\<^verbatim>\<open>0o\<close>/\<^verbatim>\<open>0b\<close> forms, \<^verbatim>\<open>Infinity\<close>) are not modelled; no
  theorem below is about a string of these forms.
\<close>

definition StringToNumber :: "string \<Rightarrow> jsnum" where
  "StringToNumber s =
     (if s = [] then Num 0
      else if list_all is_digit s then Num (of_nat (decimal_value s))
      else NaN)"

text \<open>
  Converting an object to a primitive (for \<^verbatim>\<open>ToNumber\<close> and for a template string)
  calls its \<^verbatim>\<open>toString\<close>. A value parsed from JSON is never a function, so an object with
  an own key \<^verbatim>\<open>toString\<close> shadows the inherited method with something that cannot be
  called, and the conversion throws a TypeError. An array is joined: its elements other
  than \<^verbatim>\<open>null\<close> are converted in turn.
\<close>

fun ToString_throws :: "jsvalue \<Rightarrow> bool" where
  "ToString_throws (JObj kvs) = (''toString'' \<in> set (map fst kvs))"
| "ToString_throws (JArr xs) = list_ex ToString_throws xs"
| "ToString_throws JNull = False"
| "ToString_throws (JBool b) = False"
| "ToString_throws (JNum r) = False"
| "ToString_throws (JStr s) = False"

text \<open>
  \<^verbatim>\<open>ToNumber\<close> on the other values. An array is first joined into a string
  (\<^verbatim>\<open>[]\<close> and \<^verbatim>\<open>[null]\<close> give \<^verbatim>\<open>""\<close>, \<^verbatim>\<open>[x]\<close> gives \<^verbatim>\<open>String(x)\<close>, a longer array contains
  a comma), an object without its own \<^verbatim>\<open>toString\<close> becomes \<^verbatim>\<open>"[object Object]"\<close>.
\<close>

fun ToNumber_pure :: "jsvalue \<Rightarrow> jsnum" where
  "ToNumber_pure JNull = Num 0"
| "ToNumber_pure (JBool b) = Num (if b then 1 else 0)"
| "ToNumber_pure (JNum r) = Num r"
| "ToNumber_pure (JStr s) = StringToNumber s"
| "ToNumber_pure (JObj kvs) = NaN"
| "ToNumber_pure (JArr []) = Num 0"
| "ToNumber_pure (JArr [JNull]) = Num 0"
| "ToNumber_pure (JArr [JBool b]) = NaN"
| "ToNumber_pure (JArr [JNum r]) = Num r"
| "ToNumber_pure (JArr [JStr s]) = StringToNumber s"
| "ToNumber_pure (JArr [JObj kvs]) = NaN"
| "ToNumber_pure (JArr [JArr ys]) = ToNumber_pure (JArr ys)"
| "ToNumber_pure (JArr (x # y # zs)) = NaN"

definition ToNumber :: "jsvalue \<Rightarrow> js_error + jsnum" where
  "ToNumber v = (if ToString_throws v then Inl TypeError else Inr (ToNumber_pure v))"

text \<open>\<^verbatim>\<open>undefined\<close> converts to \<^verbatim>\<open>NaN\<close>.\<close>

fun ToNumber_opt :: "jsvalue option \<Rightarrow> js_error + jsnum" where
  "ToNumber_opt None = Inr NaN"
| "ToNumber_opt (Some v) = ToNumber v"

fun js_sub :: "jsnum \<Rightarrow> jsnum \<Rightarrow> jsnum" where
  "js_sub (Num a) (Num b) = Num (a - b)"
| "js_sub _ _ = NaN"

fun js_add :: "jsnum \<Rightarrow> jsnum \<Rightarrow> jsnum" where
  "js_add (Num a) (Num b) = Num (a + b)"
| "js_add _ _ = NaN"

fun Math_min :: "jsnum \<Rightarrow> jsnum \<Rightarrow> jsnum" where
  "Math_min (Num a) (Num b) = Num (min a b)"
| "Math_min _ _ = NaN"

fun Math_max :: "jsnum \<Rightarrow> jsnum \<Rightarrow> jsnum" where
  "Math_max (Num a) (Num b) = Num (max a b)"
| "Math_max _ _ = NaN"

text \<open>The comparison \<^verbatim>\<open>x > 10\<close>: both sides become numbers, and \<^verbatim>\<open>NaN\<close> compares false.\<close>

fun js_gt :: "jsnum \<Rightarrow> jsnum \<Rightarrow> bool" where
  "js_gt (Num a) (Num b) = (a > b)"
| "js_gt _ _ = False"

section \<open>Coordinate mapping\<close>

text \<open>
  Both review paths compute the line of a diagnostic with the same expression:
  \<^verbatim>\<open>Math.max(0, Math.min((issue.line || 1) - 1 + startLine, document.lineCount - 1))\<close>
  (\<^verbatim>\<open>quickReviewSelection\<close> with \<^verbatim>\<open>selection.start.line\<close> for \<^verbatim>\<open>startLine\<close>).
  \<^verbatim>\<open>issue.line || 1\<close> is the line itself when it is truthy and the number 1 otherwise.
\<close>

definition line_or_1 :: "jsvalue option \<Rightarrow> jsvalue" where
  "line_or_1 line = (case line of None \<Rightarrow> JNum 1 | Some v \<Rightarrow> if truthy line then v else JNum 1)"

definition absoluteLine :: "jsvalue option \<Rightarrow> nat \<Rightarrow> nat \<Rightarrow> js_error + jsnum" where
  "absoluteLine line startLine lineCount =
     (case ToNumber (line_or_1 line) of
        Inl e \<Rightarrow> Inl e
      | Inr n \<Rightarrow>
          Inr (Math_max (Num 0)
                 (Math_min (js_add (js_sub n (Num 1)) (Num (of_nat startLine)))
                    (Num (of_nat lineCount - 1)))))"

text \<open>
  The rule in the specification's words:
  \<open>clamp(issue.line_or_default(1) - 1 + excerptStartLine, 0, documentLineCount - 1)\<close>, where
  the default of 1 is used when the line is missing or non-numeric.
\<close>

definition clamp :: "int \<Rightarrow> int \<Rightarrow> int \<Rightarrow> int" where
  "clamp x lo hi = max lo (min x hi)"

fun spec_line_or_default :: "jsvalue option \<Rightarrow> rat" where
  "spec_line_or_default (Some (JNum r)) = r"
| "spec_line_or_default _ = 1"

definition spec_absoluteLine :: "jsvalue option \<Rightarrow> nat \<Rightarrow> nat \<Rightarrow> rat" where
  "spec_absoluteLine line startLine lineCount =
     max 0 (min (spec_line_or_default line - 1 + of_nat startLine) (of_nat lineCount - 1))"

text \<open>
  The lines on which the code's \<^verbatim>\<open>issue.line || 1\<close> is an integer whatever a string
  converts to: a missing line, \<^verbatim>\<open>null\<close>, \<^verbatim>\<open>false\<close>, the empty string and the number 0 all
  count as line 1; any other integer is itself.
\<close>

fun effective_line :: "jsvalue option \<Rightarrow> int option" where
  "effective_line None = Some 1"
| "effective_line (Some JNull) = Some 1"
| "effective_line (Some (JBool b)) = (if b then None else Some 1)"
| "effective_line (Some (JStr s)) = (if s = [] then Some 1 else None)"
| "effective_line (Some (JNum r)) =
     (if r = 0 then Some 1 else if of_int \<lfloor>r\<rfloor> = r then Some \<lfloor>r\<rfloor> else None)"
| "effective_line (Some (JArr xs)) = None"
| "effective_line (Some (JObj kvs)) = None"

section \<open>Severity mapping\<close>

datatype DiagnosticSeverity = Error | Warning | Information | Hint

text \<open>
  \<^verbatim>\<open>reviewCode\<close>: Warning, then Error if \<^verbatim>\<open>issue.severity === "error"\<close>, then Information
  if \<^verbatim>\<open>issue.severity === "info"\<close>. \<^verbatim>\<open>quickReviewSelection\<close> has the first test only.
\<close>

definition severity_full :: "jsvalue option \<Rightarrow> DiagnosticSeverity" where
  "severity_full s =
     (let severity = Warning;
          severity = (if s = Some (JStr ''error'') then Error else severity);
          severity = (if s = Some (JStr ''info'') then Information else severity)
      in severity)"

definition severity_quick :: "jsvalue option \<Rightarrow> DiagnosticSeverity" where
  "severity_quick s =
     (let severity = Warning;
          severity = (if s = Some (JStr ''error'') then Error else severity)
      in severity)"

text \<open>The mapping in the specification's words, for every path.\<close>

definition spec_severity :: "jsvalue option \<Rightarrow> DiagnosticSeverity" where
  "spec_severity s =
     (if s = Some (JStr ''error'') then Error
      else if s = Some (JStr ''info'') then Information
      else Warning)"

section \<open>The response parser\<close>

subsection \<open>Locating the bracketed substring\<close>

text \<open>
  \<^verbatim>\<open>reviewCode\<close> uses \<^verbatim>\<open>aiResponse.match(/\[[\s\S]*\]/)\<close>: the match starts at the first
  \<^verbatim>\<open>[\<close> of the text and, the star being greedy, ends at the last \<^verbatim>\<open>]\<close> after it.
  \<^verbatim>\<open>quickReviewSelection\<close> uses \<^verbatim>\<open>/\[[\s\S]*?\]/\<close>: the star is lazy, so the match ends at
  the first \<^verbatim>\<open>]\<close> after the first \<^verbatim>\<open>[\<close>. \<open>None\<close> is \<^verbatim>\<open>null\<close> (no match).
\<close>

definition match_greedy :: "string \<Rightarrow> string option" where
  "match_greedy s =
     (case dropWhile (\<lambda>c. c \<noteq> CHR ''['') s of
        [] \<Rightarrow> None
      | b # rest \<Rightarrow>
          if CHR '']'' \<in> set rest
          then Some (b # rev (dropWhile (\<lambda>c. c \<noteq> CHR '']'') (rev rest)))
          else None)"

definition match_lazy :: "string \<Rightarrow> string option" where
  "match_lazy s =
     (case dropWhile (\<lambda>c. c \<noteq> CHR ''['') s of
        [] \<Rightarrow> None
      | b # rest \<Rightarrow>
          if CHR '']'' \<in> set rest
          then Some (b # takeWhile (\<lambda>c. c \<noteq> CHR '']'') rest @ '']'')
          else None)"

subsection \<open>\<^verbatim>\<open>JSON.parse\<close>\<close>

text \<open>
  \<^verbatim>\<open>JSON.parse\<close> belongs to the language, not to the repository; it is modelled after the
  JSON grammar (ECMA-404): a lexer into tokens and a parser with an explicit stack of
  the arrays and objects that are still open. \<open>None\<close> is the SyntaxError it throws.
  A \<^verbatim>\<open>\u\<close> escape denotes the code unit with its value modulo 256 (see the remark on
  strings above): the parse is exact for the escapes below 256, and for the others only
  its success and the lengths of the strings are.
\<close>

datatype token =
    TLBrack | TRBrack | TLBrace | TRBrace | TComma | TColon
  | TScalar jsvalue

definition is_ws :: "char \<Rightarrow> bool" where
  "is_ws c = (c = CHR '' '' \<or> c = CHR 0x09 \<or> c = CHR 0x0A \<or> c = CHR 0x0D)"

definition hex_val :: "char \<Rightarrow> nat option" where
  "hex_val c =
     (let n = (of_char c :: nat) in
      if 48 \<le> n \<and> n \<le> 57 then Some (n - 48)
      else if 65 \<le> n \<and> n \<le> 70 then Some (n - 55)
      else if 97 \<le> n \<and> n \<le> 102 then Some (n - 87)
      else None)"

definition hex4 :: "char \<Rightarrow> char \<Rightarrow> char \<Rightarrow> char \<Rightarrow> char option" where
  "hex4 a b c d =
     (case (hex_val a, hex_val b, hex_val c, hex_val d) of
        (Some h3, Some h2, Some h1, Some h0) \<Rightarrow> Some (char_of (4096 * h3 + 256 * h2 + 16 * h1 + h0))
      | _ \<Rightarrow> None)"

definition unescape :: "char \<Rightarrow> char option" where
  "unescape c =
     (if c = CHR 0x22 then Some (CHR 0x22)
      else if c = CHR 0x5C then Some (CHR 0x5C)
      else if c = CHR ''/'' then Some (CHR ''/'')
      else if c = CHR ''b'' then Some (CHR 0x08)
      else if c = CHR ''f'' then Some (CHR 0x0C)
      else if c = CHR ''n'' then Some (CHR 0x0A)
      else if c = CHR ''r'' then Some (CHR 0x0D)
      else if c = CHR ''t'' then Some (CHR 0x09)
      else None)"

text \<open>
  The inside of a string literal, after its opening quote: the characters up to the
  closing quote (reversed in the accumulator) and the input after it.
\<close>

fun lex_string :: "string \<Rightarrow> string \<Rightarrow> (string \<times> string) option" where
  "lex_string acc [] = None"
| "lex_string acc (c # cs) =
     (if c = CHR 0x22 then Some (rev acc, cs)
      else if c = CHR 0x5C then
        (case cs of
           [] \<Rightarrow> None
         | e # es \<Rightarrow>
             if e = CHR ''u'' then
               (case es of
                  a # b # c' # d # rest \<Rightarrow>
                    (case hex4 a b c' d of
                       None \<Rightarrow> None
                     | Some u \<Rightarrow> lex_string (u # acc) rest)
                | _ \<Rightarrow> None)
             else
               (case unescape e of
                  None \<Rightarrow> None
                | Some u \<Rightarrow> lex_string (u # acc) es))
      else if (of_char c :: nat) < 32 then None
      else lex_string (c # acc) cs)"

text \<open>
  A number literal: \<^verbatim>\<open>-? (0 | [1-9][0-9]*) (. [0-9]+)? ([eE] [+-]? [0-9]+)?\<close>, read as
  the rational it denotes.
\<close>

definition is_num_char :: "char \<Rightarrow> bool" where
  "is_num_char c = (is_digit c \<or> c = CHR ''-'' \<or> c = CHR ''+'' \<or> c = CHR ''.''
                    \<or> c = CHR ''e'' \<or> c = CHR ''E'')"

definition pow10 :: "int \<Rightarrow> rat" where
  "pow10 e = (if 0 \<le> e then 10 ^ nat e else 1 / 10 ^ nat (- e))"

definition lex_exponent :: "string \<Rightarrow> int option" where
  "lex_exponent s =
     (case s of
        [] \<Rightarrow> Some 0
      | c # cs \<Rightarrow>
          if c = CHR ''e'' \<or> c = CHR ''E'' then
            (let neg = (cs \<noteq> [] \<and> hd cs = CHR ''-'');
                 ds = (if cs \<noteq> [] \<and> (hd cs = CHR ''-'' \<or> hd cs = CHR ''+'') then tl cs else cs)
             in if ds \<noteq> [] \<and> list_all is_digit ds
                then Some (if neg then - int (decimal_value ds) else int (decimal_value ds))
                else None)
          else None)"

definition lex_number :: "string \<Rightarrow> rat option" where
  "lex_number s =
     (let neg = (s \<noteq> [] \<and> hd s = CHR ''-'');
          s1 = (if neg then tl s else s);
          ip = takeWhile is_digit s1;
          s2 = dropWhile is_digit s1;
          has_frac = (s2 \<noteq> [] \<and> hd s2 = CHR ''.'');
          fp = (if has_frac then takeWhile is_digit (tl s2) else []);
          s3 = (if has_frac then dropWhile is_digit (tl s2) else s2)
      in if ip = [] \<or> (length ip > 1 \<and> hd ip = CHR ''0'') \<or> (has_frac \<and> fp = []) then None
         else
           (case lex_exponent s3 of
              None \<Rightarrow> None
            | Some e \<Rightarrow>
                (let m = of_nat (decimal_value (ip @ fp)) * pow10 (e - int (length fp))
                 in Some (if neg then - m else m))))"

definition starts_with :: "string \<Rightarrow> string \<Rightarrow> bool" where
  "starts_with p s = (take (length p) s = p)"

function tokenize :: "string \<Rightarrow> token list option" where
  "tokenize [] = Some []"
| "tokenize (c # cs) =
     (if is_ws c then tokenize cs
      else if c = CHR ''['' then map_option (Cons TLBrack) (tokenize cs)
      else if c = CHR '']'' then map_option (Cons TRBrack) (tokenize cs)
      else if c = CHR ''{'' then map_option (Cons TLBrace) (tokenize cs)
      else if c = CHR ''}'' then map_option (Cons TRBrace) (tokenize cs)
      else if c = CHR '','' then map_option (Cons TComma) (tokenize cs)
      else if c = CHR '':'' then map_option (Cons TColon) (tokenize cs)
      else if c = CHR 0x22 then
        (case lex_string [] cs of
           None \<Rightarrow> None
         | Some (str, rest) \<Rightarrow> map_option (Cons (TScalar (JStr str))) (tokenize rest))
      else if is_digit c \<or> c = CHR ''-'' then
        (case lex_number (c # takeWhile is_num_char cs) of
           None \<Rightarrow> None
         | Some r \<Rightarrow> map_option (Cons (TScalar (JNum r))) (tokenize (dropWhile is_num_char cs)))
      else if starts_with ''true'' (c # cs) then
        map_option (Cons (TScalar (JBool True))) (tokenize (drop 3 cs))
      else if starts_with ''false'' (c # cs) then
        map_option (Cons (TScalar (JBool False))) (tokenize (drop 4 cs))
      else if starts_with ''null'' (c # cs) then
        map_option (Cons (TScalar JNull)) (tokenize (drop 3 cs))
      else None)"
  by pat_completeness auto

text \<open>The lexer terminates: every call is on a shorter input.\<close>

lemma lex_string_length:
  "lex_string acc cs = Some (str, rest) \<Longrightarrow> length rest \<le> length cs"
proof (induction acc cs rule: lex_string.induct)
  case (1 acc)
  then show ?case by simp
next
  case (2 acc c cs)
  show ?case
  proof (cases "c = CHR 0x22")
    case True
    with "2.prems" show ?thesis by simp
  next
    case nq: False
    show ?thesis
    proof (cases "c = CHR 0x5C")
      case bs: True
      show ?thesis
      proof (cases cs)
        case Nil
        with nq bs "2.prems" show ?thesis by simp
      next
        case (Cons e es)
        show ?thesis
        proof (cases "e = CHR ''u''")
          case True
          then obtain a b c' d rest' u
            where es: "es = a # b # c' # d # rest'" and h: "hex4 a b c' d = Some u"
              and r: "lex_string (u # acc) rest' = Some (str, rest)"
            using nq bs Cons "2.prems" by (auto split: list.splits option.splits)
          from "2.IH"(1)[OF nq bs Cons True es refl refl refl h] r
          have "length rest \<le> length rest'" by simp
          with es Cons show ?thesis by simp
        next
          case False
          then obtain u
            where h: "unescape e = Some u" and r: "lex_string (u # acc) es = Some (str, rest)"
            using nq bs Cons "2.prems" by (auto split: option.splits)
          from "2.IH"(2)[OF nq bs Cons False h] r have "length rest \<le> length es" by simp
          with Cons show ?thesis by simp
        qed
      qed
    next
      case False
      with nq "2.prems"
      have r: "lex_string (c # acc) cs = Some (str, rest)" and n: "\<not> (of_char c :: nat) < 32"
        by (auto split: if_splits)
      from "2.IH"(3)[OF nq False n] r show ?thesis by simp
    qed
  qed
qed

termination tokenize
proof (relation "measure length")
  show "wf (measure length)" by simp
next
  fix c cs x2 x y
  assume "lex_string [] cs = Some x2" "(x, y) = x2"
  then have "length y \<le> length cs" using lex_string_length[of "[]" cs x y] by simp
  then show "(y, c # cs) \<in> measure length" by simp
qed (simp_all add: le_imp_less_Suc length_dropWhile_le)

text \<open>
  The parser keeps the open containers on a stack: an array with the elements read so
  far, an object with the members read so far and the key whose value is being read
  (both lists newest first).
\<close>

datatype frame =
    ArrFrame "jsvalue list"
  | ObjFrame "(string \<times> jsvalue) list" "string option"

datatype pstate =
    PValue | PArrStart | PObjStart | PKey | PColon | PArrNext | PObjNext
  | PDone jsvalue

fun attach :: "jsvalue \<Rightarrow> frame list \<Rightarrow> (frame list \<times> pstate) option" where
  "attach v [] = Some ([], PDone v)"
| "attach v (ArrFrame xs # st) = Some (ArrFrame (v # xs) # st, PArrNext)"
| "attach v (ObjFrame kvs (Some k) # st) = Some (ObjFrame ((k, v) # kvs) None # st, PObjNext)"
| "attach v (ObjFrame kvs None # st) = None"

definition open_value :: "token \<Rightarrow> frame list \<Rightarrow> (frame list \<times> pstate) option" where
  "open_value t st =
     (case t of
        TScalar v \<Rightarrow> attach v st
      | TLBrack \<Rightarrow> Some (ArrFrame [] # st, PArrStart)
      | TLBrace \<Rightarrow> Some (ObjFrame [] None # st, PObjStart)
      | _ \<Rightarrow> None)"

definition close_array :: "frame list \<Rightarrow> (frame list \<times> pstate) option" where
  "close_array st = (case st of ArrFrame xs # st' \<Rightarrow> attach (JArr (rev xs)) st' | _ \<Rightarrow> None)"

definition close_object :: "frame list \<Rightarrow> (frame list \<times> pstate) option" where
  "close_object st =
     (case st of ObjFrame kvs None # st' \<Rightarrow> attach (JObj (rev kvs)) st' | _ \<Rightarrow> None)"

definition read_key :: "token \<Rightarrow> frame list \<Rightarrow> (frame list \<times> pstate) option" where
  "read_key t st =
     (case (t, st) of
        (TScalar (JStr k), ObjFrame kvs None # st') \<Rightarrow> Some (ObjFrame kvs (Some k) # st', PColon)
      | _ \<Rightarrow> None)"

fun step :: "pstate \<Rightarrow> frame list \<Rightarrow> token \<Rightarrow> (frame list \<times> pstate) option" where
  "step PValue st t = open_value t st"
| "step PArrStart st t = (if t = TRBrack then close_array st else open_value t st)"
| "step PObjStart st t = (if t = TRBrace then close_object st else read_key t st)"
| "step PKey st t = read_key t st"
| "step PColon st t = (if t = TColon then Some (st, PValue) else None)"
| "step PArrNext st t =
     (if t = TComma then Some (st, PValue)
      else if t = TRBrack then close_array st
      else None)"
| "step PObjNext st t =
     (if t = TComma then Some (st, PKey)
      else if t = TRBrace then close_object st
      else None)"
| "step (PDone v) st t = None"

fun parse_tokens :: "pstate \<Rightarrow> frame list \<Rightarrow> token list \<Rightarrow> jsvalue option" where
  "parse_tokens p st [] = (case p of PDone v \<Rightarrow> Some v | _ \<Rightarrow> None)"
| "parse_tokens p st (t # ts) =
     (case step p st t of
        None \<Rightarrow> None
      | Some (st', p') \<Rightarrow> parse_tokens p' st' ts)"

definition JSON_parse :: "string \<Rightarrow> jsvalue option" where
  "JSON_parse s =
     (case tokenize s of
        None \<Rightarrow> None
      | Some ts \<Rightarrow> parse_tokens PValue [] ts)"

subsection \<open>The quality filter of the quick review\<close>

definition toLowerCase :: "string \<Rightarrow> string" where
  "toLowerCase s =
     map (\<lambda>c. let n = (of_char c :: nat)
               in if (65 \<le> n \<and> n \<le> 90) \<or> (192 \<le> n \<and> n \<le> 222 \<and> n \<noteq> 215)
                  then char_of (n + 32) else c) s"

fun str_includes :: "string \<Rightarrow> string \<Rightarrow> bool" where
  "str_includes [] k = (k = [])"
| "str_includes (c # cs) k = (starts_with k (c # cs) \<or> str_includes cs k)"

definition and_then :: "'e + 'a \<Rightarrow> ('a \<Rightarrow> 'e + 'b) \<Rightarrow> 'e + 'b" where
  "and_then m f = (case m of Inl e \<Rightarrow> Inl e | Inr x \<Rightarrow> f x)"

definition try_catch :: "'e + 'a \<Rightarrow> ('e \<Rightarrow> 'e + 'a) \<Rightarrow> 'e + 'a" where
  "try_catch body handler = (case body of Inl e \<Rightarrow> handler e | Inr x \<Rightarrow> Inr x)"

text \<open>
  The callback of \<^verbatim>\<open>parsed.filter\<close> in \<^verbatim>\<open>quickReviewSelection\<close>:
  \<^verbatim>\<open>issue.message && issue.message.length > 10 && !issue.message.toLowerCase().includes("comment")
     && !...includes("naming") && !...includes("style")\<close>.
  Reading \<^verbatim>\<open>message\<close> of a \<^verbatim>\<open>null\<close> issue throws; \<^verbatim>\<open>toLowerCase\<close> exists on strings only, so
  a truthy message that is no string and passes the length test throws as well.
\<close>

definition quick_filter :: "jsvalue \<Rightarrow> js_error + bool" where
  "quick_filter issue =
     and_then (getProp (Some issue) ''message'') (\<lambda>message.
       if \<not> truthy message then Inr False
       else
         and_then (getProp message ''length'') (\<lambda>len.
         and_then (ToNumber_opt len) (\<lambda>n.
           if \<not> js_gt n (Num 10) then Inr False
           else
             (case message of
                Some (JStr s) \<Rightarrow>
                  Inr (\<not> str_includes (toLowerCase s) ''comment''
                       \<and> \<not> str_includes (toLowerCase s) ''naming''
                       \<and> \<not> str_includes (toLowerCase s) ''style'')
              | _ \<Rightarrow> Inl TypeError))))"

fun filter_issues :: "jsvalue list \<Rightarrow> js_error + jsvalue list" where
  "filter_issues [] = Inr []"
| "filter_issues (x # xs) =
     and_then (quick_filter x) (\<lambda>keep.
     and_then (filter_issues xs) (\<lambda>ys.
       Inr (if keep then x # ys else ys)))"

text \<open>The filter in the specification's words: what is discarded.\<close>

definition has_keyword :: "string \<Rightarrow> bool" where
  "has_keyword m =
     (str_includes (toLowerCase m) ''comment''
      \<or> str_includes (toLowerCase m) ''naming''
      \<or> str_includes (toLowerCase m) ''style'')"

definition spec_discards :: "string \<Rightarrow> bool" where
  "spec_discards m = (length m < 10 \<or> has_keyword m)"

text \<open>
  An issue of the shape the model is asked for, as far as the filter looks at it: an
  object whose \<^verbatim>\<open>message\<close> is a string or is missing; and its message.
\<close>

definition well_typed_issue :: "jsvalue \<Rightarrow> bool" where
  "well_typed_issue issue =
     (case issue of
        JObj kvs \<Rightarrow>
          (case map_of (rev kvs) ''message'' of
             None \<Rightarrow> True
           | Some (JStr m) \<Rightarrow> True
           | Some _ \<Rightarrow> False)
      | _ \<Rightarrow> False)"

definition message_string :: "jsvalue \<Rightarrow> string option" where
  "message_string issue =
     (case issue of
        JObj kvs \<Rightarrow>
          (case map_of (rev kvs) ''message'' of
             Some (JStr m) \<Rightarrow> Some m
           | _ \<Rightarrow> None)
      | _ \<Rightarrow> None)"

definition code_keeps :: "jsvalue \<Rightarrow> bool" where
  "code_keeps issue =
     (case message_string issue of
        None \<Rightarrow> False
      | Some m \<Rightarrow> 10 < length m \<and> \<not> has_keyword m)"

subsection \<open>From the raw text to the issue list\<close>

text \<open>
  The body of the inner \<^verbatim>\<open>try\<close> of \<^verbatim>\<open>quickReviewSelection\<close>, and the whole statement with
  its \<^verbatim>\<open>catch\<close>, which logs and leaves \<^verbatim>\<open>issues\<close> at its initial \<^verbatim>\<open>[]\<close>. \<^verbatim>\<open>aiResponse\<close> is
  whatever \<^verbatim>\<open>response.data.candidates[0].content.parts[0].text\<close> was; \<^verbatim>\<open>match\<close> exists on
  strings only.
\<close>

definition try_parse_quick :: "jsvalue option \<Rightarrow> js_error + jsvalue list" where
  "try_parse_quick aiResponse =
     (case aiResponse of
        Some (JStr text) \<Rightarrow>
          (case match_lazy text of
             None \<Rightarrow> Inr []
           | Some jsonMatch \<Rightarrow>
               (case JSON_parse jsonMatch of
                  None \<Rightarrow> Inl SyntaxError
                | Some (JArr parsed) \<Rightarrow> filter_issues parsed
                | Some _ \<Rightarrow> Inl TypeError))
      | _ \<Rightarrow> Inl TypeError)"

definition parseIssues_quick :: "jsvalue option \<Rightarrow> js_error + jsvalue list" where
  "parseIssues_quick aiResponse = try_catch (try_parse_quick aiResponse) (\<lambda>e. Inr [])"

text \<open>The same for \<^verbatim>\<open>reviewCode\<close>, where \<^verbatim>\<open>issues\<close> is the parsed value itself.\<close>

definition try_parse_full :: "jsvalue option \<Rightarrow> js_error + jsvalue" where
  "try_parse_full aiResponse =
     (case aiResponse of
        Some (JStr text) \<Rightarrow>
          (case match_greedy text of
             None \<Rightarrow> Inr (JArr [])
           | Some jsonMatch \<Rightarrow>
               (case JSON_parse jsonMatch of
                  None \<Rightarrow> Inl SyntaxError
                | Some v \<Rightarrow> Inr v))
      | _ \<Rightarrow> Inl TypeError)"

definition parseIssues_full :: "jsvalue option \<Rightarrow> js_error + jsvalue" where
  "parseIssues_full aiResponse = try_catch (try_parse_full aiResponse) (\<lambda>e. Inr (JArr []))"

section \<open>Documents, diagnostics and the state of the extension\<close>

text \<open>
  The editor's document is an external collaborator; the model keeps what the extension
  reads of it: its identity, its lines (\<^verbatim>\<open>lineCount\<close>, \<^verbatim>\<open>lineAt\<close>) and \<^verbatim>\<open>getText\<close>, whose
  result for a range (\<open>None\<close>: the whole text) is the editor's business.
\<close>

record Range =
  start_line :: nat
  start_character :: nat
  end_line :: nat
  end_character :: nat

record document =
  uri :: string
  fileName :: string
  languageId :: string
  lineTexts :: "string list"
  getText :: "Range option \<Rightarrow> string"

definition lineCount :: "document \<Rightarrow> nat" where
  "lineCount doc = length (lineTexts doc)"

record TextLine =
  line_text :: string
  line_range :: Range

text \<open>
  \<^verbatim>\<open>document.lineAt(line)\<close> throws (``Illegal value for line'') unless \<^verbatim>\<open>line\<close> is an
  integer in \<open>[0, lineCount)\<close>; the range of a line runs from its start to its end.
\<close>

definition lineAt :: "document \<Rightarrow> jsnum \<Rightarrow> js_error + TextLine" where
  "lineAt doc n =
     (case n of
        NaN \<Rightarrow> Inl IllegalArgument
      | Num r \<Rightarrow>
          if 0 \<le> r \<and> r < of_nat (lineCount doc) \<and> of_int \<lfloor>r\<rfloor> = r
          then Inr \<lparr>line_text = lineTexts doc ! nat \<lfloor>r\<rfloor>,
                    line_range = \<lparr>start_line = nat \<lfloor>r\<rfloor>, start_character = 0,
                                  end_line = nat \<lfloor>r\<rfloor>,
                                  end_character = length (lineTexts doc ! nat \<lfloor>r\<rfloor>)\<rparr>\<rparr>
          else Inl IllegalArgument)"

text \<open>
  A diagnostic is an object: \<open>d_id\<close> is its identity (\<^verbatim>\<open>new vscode.Diagnostic\<close> makes a
  fresh one), the other fields are its content. \<open>d_message\<close> is the value \<open>m\<close> of the
  message \<^verbatim>\<open>`<robot> ${m}`\<close>.
\<close>

record Diagnostic =
  d_id :: nat
  d_range :: Range
  d_message :: "jsvalue option"
  d_severity :: DiagnosticSeverity
  d_source :: string

definition content :: "Diagnostic \<Rightarrow> Range \<times> jsvalue option \<times> DiagnosticSeverity \<times> string" where
  "content d = (d_range d, d_message d, d_severity d, d_source d)"

datatype notification =
    InformationMessage string
  | FoundMessage nat string
  | WarningMessage string
  | ErrorMessage string "js_error option"

datatype role = User | Assistant

record turn =
  turn_role :: role
  turn_text :: "jsvalue option"

datatype webview_message =
    AiResponse "jsvalue option"
  | ChatError string "js_error option"
  | ClearChatMessage
  | StreamStopped string

text \<open>
  The global state of \<^verbatim>\<open>extension.js\<close> (\<^verbatim>\<open>diagnosticCollection\<close>, \<^verbatim>\<open>conversationHistory\<close>,
  \<^verbatim>\<open>currentStreamController\<close>), the stored API key, and what the extension has done to
  its collaborators: the messages shown, the edits applied to documents, the messages
  posted to the chat view, the controllers aborted, and the requests of the chat that
  are still awaited (each with the context it sent).
\<close>

record ext_state =
  diagnosticCollection :: "string \<Rightarrow> Diagnostic list"
  conversationHistory :: "turn list"
  currentStreamController :: "nat option"
  config_apiKey :: "string option"
  next_id :: nat
  notifications :: "notification list"
  edits :: "(string \<times> Range \<times> string) list"
  posted :: "webview_message list"
  aborted :: "nat list"
  inFlight :: "(string \<times> jsvalue option) list list"

definition initial_state :: ext_state where
  "initial_state =
     \<lparr>diagnosticCollection = (\<lambda>u. []), conversationHistory = [],
      currentStreamController = None, config_apiKey = None, next_id = 0,
      notifications = [], edits = [], posted = [], aborted = [], inFlight = []\<rparr>"

text \<open>
  What the collaborators answer during one command: the active editor (its document and
  selection), the answer to the API-key prompt, the outcome of \<^verbatim>\<open>axios.post\<close> (the error
  thrown, or \<^verbatim>\<open>response.data\<close>), and whether \<^verbatim>\<open>editor.edit\<close> applied the edit.
\<close>

record env =
  activeTextEditor :: "(document \<times> Range) option"
  inputBox :: "string option"
  http :: "js_error + jsvalue"
  editApplied :: bool

definition notify :: "notification \<Rightarrow> ext_state \<Rightarrow> ext_state" where
  "notify n st = st\<lparr>notifications := notifications st @ [n]\<rparr>"

definition postMessage :: "webview_message \<Rightarrow> ext_state \<Rightarrow> ext_state" where
  "postMessage m st = st\<lparr>posted := posted st @ [m]\<rparr>"

definition has_key :: "string option \<Rightarrow> bool" where
  "has_key k = (case k of None \<Rightarrow> False | Some s \<Rightarrow> s \<noteq> [])"

definition getApiKey :: "env \<Rightarrow> ext_state \<Rightarrow> string option \<times> ext_state" where
  "getApiKey e st =
     (if has_key (config_apiKey st) then (config_apiKey st, st)
      else if \<not> has_key (inputBox e)
      then (None, notify (ErrorMessage ''API Key is required to use AI Copilot!'' None) st)
      else (inputBox e,
            notify (InformationMessage ''API Key saved successfully!'')
              (st\<lparr>config_apiKey := inputBox e\<rparr>)))"

text \<open>\<^verbatim>\<open>response.data.candidates[0].content.parts[0].text\<close>.\<close>

definition response_text :: "jsvalue \<Rightarrow> js_error + jsvalue option" where
  "response_text data =
     and_then (getProp (Some data) ''candidates'') (\<lambda>candidates.
     and_then (getIndex0 candidates) (\<lambda>candidate.
     and_then (getProp candidate ''content'') (\<lambda>content'.
     and_then (getProp content' ''parts'') (\<lambda>parts.
     and_then (getIndex0 parts) (\<lambda>part.
       getProp part ''text'')))))"

section \<open>Building diagnostics\<close>

text \<open>
  The callback of \<^verbatim>\<open>issues.map\<close>, which the two review paths share but for the severity
  mapping. It reads \<^verbatim>\<open>issue.line\<close>, computes the line, asks the document for its range,
  reads \<^verbatim>\<open>issue.severity\<close> and formats \<^verbatim>\<open>issue.message\<close> into the message.
\<close>

definition issue_to_diagnostic ::
  "(jsvalue option \<Rightarrow> DiagnosticSeverity) \<Rightarrow> document \<Rightarrow> nat \<Rightarrow> nat \<Rightarrow> jsvalue
     \<Rightarrow> js_error + Diagnostic" where
  "issue_to_diagnostic sev doc startLine ident issue =
     and_then (getProp (Some issue) ''line'') (\<lambda>line.
     and_then (absoluteLine line startLine (lineCount doc)) (\<lambda>n.
     and_then (lineAt doc n) (\<lambda>tl.
     and_then (getProp (Some issue) ''severity'') (\<lambda>s.
     and_then (getProp (Some issue) ''message'') (\<lambda>m.
       if (case m of None \<Rightarrow> False | Some v \<Rightarrow> ToString_throws v) then Inl TypeError
       else Inr \<lparr>d_id = ident, d_range = line_range tl, d_message = m,
                 d_severity = sev s, d_source = ''AI Copilot''\<rparr>)))))"

text \<open>\<^verbatim>\<open>issues.map(callback)\<close>: the diagnostics in the order of the issues, each a new object.\<close>

fun map_issues ::
  "(nat \<Rightarrow> jsvalue \<Rightarrow> js_error + Diagnostic) \<Rightarrow> nat \<Rightarrow> jsvalue list
     \<Rightarrow> js_error + Diagnostic list" where
  "map_issues f ident [] = Inr []"
| "map_issues f ident (x # xs) =
     and_then (f ident x) (\<lambda>d.
     and_then (map_issues f (Suc ident) xs) (\<lambda>ds.
       Inr (d # ds)))"

section \<open>The review commands\<close>

text \<open>\<^verbatim>\<open>reviewCode(document, code, startLine)\<close>: the body of its \<^verbatim>\<open>try\<close> after the API key.\<close>

definition reviewCode_try :: "document \<Rightarrow> nat \<Rightarrow> env \<Rightarrow> ext_state \<Rightarrow> js_error + ext_state" where
  "reviewCode_try doc startLine e st =
     and_then (http e) (\<lambda>data.
     and_then (response_text data) (\<lambda>aiResponse.
     and_then (parseIssues_full aiResponse) (\<lambda>issues.
     and_then (case issues of
                 JArr xs \<Rightarrow> map_issues (issue_to_diagnostic severity_full doc startLine) (next_id st) xs
               | _ \<Rightarrow> Inl TypeError) (\<lambda>diagnostics.
       Inr (notify (if diagnostics = [] then InformationMessage ''No issues found!''
                    else FoundMessage (length diagnostics) ''issue(s)'')
              (st\<lparr>diagnosticCollection := (diagnosticCollection st)(uri doc := diagnostics),
                  next_id := next_id st + length diagnostics\<rparr>))))))"

definition reviewCode :: "document \<Rightarrow> string \<Rightarrow> nat \<Rightarrow> env \<Rightarrow> ext_state \<Rightarrow> ext_state" where
  "reviewCode doc code startLine e st =
     (case getApiKey e st of
        (None, st1) \<Rightarrow> st1
      | (Some apiKey, st1) \<Rightarrow>
          (case reviewCode_try doc startLine e st1 of
             Inl error \<Rightarrow> notify (ErrorMessage ''Review failed: '' (Some error)) st1
           | Inr st2 \<Rightarrow> st2))"

definition supportedLanguages :: "string list" where
  "supportedLanguages =
     [''javascript'', ''typescript'', ''python'', ''java'', ''cpp'', ''c'', ''go'', ''rust'']"

definition reviewDocument :: "document \<Rightarrow> env \<Rightarrow> ext_state \<Rightarrow> ext_state" where
  "reviewDocument doc e st =
     (if languageId doc \<notin> set supportedLanguages
      then notify (InformationMessage ''Language not supported.'') st
      else reviewCode doc (getText doc None) 0 e st)"

definition reviewCurrentFile :: "env \<Rightarrow> ext_state \<Rightarrow> ext_state" where
  "reviewCurrentFile e st =
     (case activeTextEditor e of
        None \<Rightarrow> notify (WarningMessage ''No file open!'') st
      | Some editor \<Rightarrow> reviewDocument (fst editor) e st)"

definition reviewSelectedCode :: "env \<Rightarrow> ext_state \<Rightarrow> ext_state" where
  "reviewSelectedCode e st =
     (case activeTextEditor e of
        None \<Rightarrow> st
      | Some editor \<Rightarrow>
          (let code = getText (fst editor) (Some (snd editor))
           in if code = [] then notify (WarningMessage ''No code selected!'') st
              else reviewCode (fst editor) code (start_line (snd editor)) e st))"

text \<open>
  \<^verbatim>\<open>quickReviewSelection(document, selection)\<close>. Its first statement reads
  \<^verbatim>\<open>editor.selection\<close> when there is no editor or no selection, outside every \<^verbatim>\<open>try\<close>; the
  rest runs inside one.
\<close>

definition quickReview_try ::
  "document \<Rightarrow> Range \<Rightarrow> env \<Rightarrow> ext_state \<Rightarrow> js_error + ext_state" where
  "quickReview_try doc selection e st =
     and_then (http e) (\<lambda>data.
     and_then (response_text data) (\<lambda>aiResponse.
     and_then (parseIssues_quick aiResponse) (\<lambda>issues.
       if issues = [] then Inr (notify (InformationMessage ''No critical issues found!'') st)
       else
         and_then (map_issues (issue_to_diagnostic severity_quick doc (start_line selection))
                     (next_id st) issues) (\<lambda>diagnostics.
           (let existingDiagnostics = diagnosticCollection st (uri doc);
                allDiagnostics = existingDiagnostics @ diagnostics
            in Inr (notify (FoundMessage (length diagnostics) ''critical issue(s)'')
                      (st\<lparr>diagnosticCollection := (diagnosticCollection st)(uri doc := allDiagnostics),
                          next_id := next_id st + length diagnostics\<rparr>)))))))"

definition quickReviewSelection ::
  "document \<Rightarrow> Range option \<Rightarrow> env \<Rightarrow> ext_state \<Rightarrow> js_error + ext_state" where
  "quickReviewSelection doc selection e st =
     and_then (case (activeTextEditor e, selection) of
                 (None, _) \<Rightarrow> Inl TypeError
               | (Some editor, None) \<Rightarrow> Inr (snd editor)
               | (Some editor, Some sel) \<Rightarrow> Inr sel) (\<lambda>sel.
       if getText doc (Some sel) = [] then Inr (notify (WarningMessage ''No code selected!'') st)
       else
         (case getApiKey e st of
            (None, st1) \<Rightarrow> Inr st1
          | (Some apiKey, st1) \<Rightarrow>
              (case quickReview_try doc sel e st1 of
                 Inl error \<Rightarrow> Inr (notify (ErrorMessage ''Review failed: '' (Some error)) st1)
               | Inr st2 \<Rightarrow> Inr st2)))"

section \<open>Applying a fix\<close>

text \<open>
  The clean-up of the model's answer in \<^verbatim>\<open>applyAIFix\<close>: \<^verbatim>\<open>trim()\<close>, then
  \<^verbatim>\<open>.split('```').join('')\<close>, \<^verbatim>\<open>.split('\n')\<close>, dropping the lines that match \<^verbatim>\<open>/^[a-z]+$/\<close>,
  \<^verbatim>\<open>.join('\n')\<close> and \<^verbatim>\<open>trim()\<close> again.
\<close>

definition is_js_space :: "char \<Rightarrow> bool" where
  "is_js_space c =
     (let n = (of_char c :: nat)
      in n = 9 \<or> n = 10 \<or> n = 11 \<or> n = 12 \<or> n = 13 \<or> n = 32 \<or> n = 160)"

definition trim :: "string \<Rightarrow> string" where
  "trim s = rev (dropWhile is_js_space (rev (dropWhile is_js_space s)))"

fun remove_fences :: "string \<Rightarrow> string" where
  "remove_fences (a # b # c # cs) =
     (if a = CHR 0x60 \<and> b = CHR 0x60 \<and> c = CHR 0x60 then remove_fences cs
      else a # remove_fences (b # c # cs))"
| "remove_fences cs = cs"

fun split_lines :: "string \<Rightarrow> string list" where
  "split_lines [] = [[]]"
| "split_lines (c # cs) =
     (if c = CHR 0x0A then [] # split_lines cs
      else (case split_lines cs of
              [] \<Rightarrow> [[c]]
            | l # ls \<Rightarrow> (c # l) # ls))"

fun join_lines :: "string list \<Rightarrow> string" where
  "join_lines [] = []"
| "join_lines [l] = l"
| "join_lines (l # ls) = l @ [CHR 0x0A] @ join_lines ls"

definition is_language_name :: "string \<Rightarrow> bool" where
  "is_language_name l =
     (l \<noteq> [] \<and> list_all (\<lambda>c. 97 \<le> (of_char c :: nat) \<and> (of_char c :: nat) \<le> 122) l)"

definition clean_fix :: "string \<Rightarrow> string" where
  "clean_fix s =
     trim (join_lines (filter (\<lambda>l. \<not> is_language_name l)
                         (split_lines (remove_fences (trim s)))))"

text \<open>
  \<^verbatim>\<open>response.data.candidates.content.parts.text.trim()\<close> and the clean-up: the path reads
  \<^verbatim>\<open>content\<close> of \<^verbatim>\<open>candidates\<close> itself and \<^verbatim>\<open>text\<close> of \<^verbatim>\<open>parts\<close> itself, without an index.
  \<^verbatim>\<open>trim\<close> exists on strings only.
\<close>

definition fixedCode_of :: "jsvalue \<Rightarrow> js_error + string" where
  "fixedCode_of data =
     and_then (getProp (Some data) ''candidates'') (\<lambda>candidates.
     and_then (getProp candidates ''content'') (\<lambda>content'.
     and_then (getProp content' ''parts'') (\<lambda>parts.
     and_then (getProp parts ''text'') (\<lambda>t.
       (case t of
          Some (JStr s) \<Rightarrow> Inr (clean_fix s)
        | _ \<Rightarrow> Inl TypeError)))))"

text \<open>
  \<^verbatim>\<open>applyAIFix(document, diagnostic)\<close>: the body of its \<^verbatim>\<open>try\<close> after the API key, and the
  command. \<^verbatim>\<open>editor.document === document\<close> compares the documents by identity, which
  for open documents is their URI; \<^verbatim>\<open>d !== diagnostic\<close> compares the diagnostics by
  identity. The result of \<^verbatim>\<open>editor.edit\<close> is not looked at.
\<close>

definition applyAIFix_try ::
  "document \<Rightarrow> Diagnostic \<Rightarrow> env \<Rightarrow> ext_state \<Rightarrow> js_error + ext_state" where
  "applyAIFix_try doc diagnostic e st =
     and_then (lineAt doc (Num (of_nat (start_line (d_range diagnostic))))) (\<lambda>lineText.
     and_then (http e) (\<lambda>data.
     and_then (fixedCode_of data) (\<lambda>fixedCode.
       Inr (case activeTextEditor e of
              None \<Rightarrow> st
            | Some editor \<Rightarrow>
                if uri (fst editor) \<noteq> uri doc then st
                else
                  (let st1 = (if editApplied e
                              then st\<lparr>edits := edits st @ [(uri doc, d_range diagnostic, fixedCode)]\<rparr>
                              else st);
                       st2 = notify (InformationMessage ''AI fix applied!'') st1;
                       remainingDiagnostics =
                         filter (\<lambda>d. d_id d \<noteq> d_id diagnostic) (diagnosticCollection st2 (uri doc))
                   in st2\<lparr>diagnosticCollection :=
                            (diagnosticCollection st2)(uri doc := remainingDiagnostics)\<rparr>)))))"

definition applyAIFix :: "document \<Rightarrow> Diagnostic \<Rightarrow> env \<Rightarrow> ext_state \<Rightarrow> ext_state" where
  "applyAIFix doc diagnostic e st =
     (case getApiKey e st of
        (None, st1) \<Rightarrow> st1
      | (Some apiKey, st1) \<Rightarrow>
          (case applyAIFix_try doc diagnostic e st1 of
             Inl error \<Rightarrow> notify (ErrorMessage ''Fix failed: '' (Some error)) st1
           | Inr st2 \<Rightarrow> st2))"

text \<open>
  The documented successful response of the endpoint: an object whose \<^verbatim>\<open>candidates\<close> is
  an array of objects, each with a \<^verbatim>\<open>content\<close> object whose \<^verbatim>\<open>parts\<close> is an array of objects
  with a string \<^verbatim>\<open>text\<close>. This is the shape that the access path of the other commands,
  \<^verbatim>\<open>candidates[0].content.parts[0].text\<close>, expects.
\<close>

definition is_text_part :: "jsvalue \<Rightarrow> bool" where
  "is_text_part p =
     (case p of
        JObj kvs \<Rightarrow> (case map_of (rev kvs) ''text'' of Some (JStr s) \<Rightarrow> True | _ \<Rightarrow> False)
      | _ \<Rightarrow> False)"

definition is_candidate :: "jsvalue \<Rightarrow> bool" where
  "is_candidate c =
     (case c of
        JObj kvs \<Rightarrow>
          (case map_of (rev kvs) ''content'' of
             Some (JObj cvs) \<Rightarrow>
               (case map_of (rev cvs) ''parts'' of
                  Some (JArr ps) \<Rightarrow> list_all is_text_part ps
                | _ \<Rightarrow> False)
           | _ \<Rightarrow> False)
      | _ \<Rightarrow> False)"

definition well_formed_response :: "jsvalue \<Rightarrow> bool" where
  "well_formed_response data =
     (case data of
        JObj kvs \<Rightarrow>
          (case map_of (rev kvs) ''candidates'' of
             Some (JArr cs) \<Rightarrow> list_all is_candidate cs
           | _ \<Rightarrow> False)
      | _ \<Rightarrow> False)"

section \<open>The chat\<close>

text \<open>
  \<^verbatim>\<open>handleChatMessage\<close> suspends at \<^verbatim>\<open>await axios.post(...)\<close>; other messages of the chat
  view are handled meanwhile. It is therefore modelled in two halves: up to the request,
  and from the settled request on. The prompt of a turn carries the file of the active
  editor when there is one.
\<close>

fun last_segment :: "string \<Rightarrow> string \<Rightarrow> string" where
  "last_segment acc [] = rev acc"
| "last_segment acc (c # cs) =
     (if c = CHR ''/'' \<or> c = CHR 0x5C then last_segment [] cs else last_segment (c # acc) cs)"

definition fullPrompt :: "env \<Rightarrow> string \<Rightarrow> string" where
  "fullPrompt e message =
     (case activeTextEditor e of
        None \<Rightarrow> message
      | Some editor \<Rightarrow>
          (let doc = fst editor; selection = snd editor;
               isEmpty = (start_line selection = end_line selection
                          \<and> start_character selection = end_character selection);
               codeContext = (if \<not> isEmpty then getText doc (Some selection) else getText doc None)
           in ''I'm working on file: '' @ last_segment [] (fileName doc)
              @ '' (Language: '' @ languageId doc @ '')'' @ [CHR 0x0A, CHR 0x0A]
              @ ''File Content:'' @ [CHR 0x0A] @ [CHR 0x60, CHR 0x60, CHR 0x60] @ languageId doc
              @ [CHR 0x0A] @ codeContext @ [CHR 0x0A] @ [CHR 0x60, CHR 0x60, CHR 0x60]
              @ [CHR 0x0A, CHR 0x0A] @ ''User Question: '' @ message))"

text \<open>\<^verbatim>\<open>conversationHistory.slice(-6).map(...)\<close>: the last six turns in the endpoint's roles.\<close>

definition context_window :: "turn list \<Rightarrow> (string \<times> jsvalue option) list" where
  "context_window history =
     map (\<lambda>msg. (if turn_role msg = Assistant then ''model'' else ''user'', turn_text msg))
       (drop (length history - 6) history)"

definition handleChatMessage_send :: "string \<Rightarrow> env \<Rightarrow> ext_state \<Rightarrow> ext_state" where
  "handleChatMessage_send message e st =
     (case getApiKey e st of
        (None, st1) \<Rightarrow>
          postMessage (ChatError ''API Key not set! Please provide your Gemini API key.'' None) st1
      | (Some apiKey, st1) \<Rightarrow>
          (let history = conversationHistory st1
                           @ [\<lparr>turn_role = User, turn_text = Some (JStr (fullPrompt e message))\<rparr>]
           in st1\<lparr>conversationHistory := history,
                  inFlight := inFlight st1 @ [context_window history]\<rparr>))"

definition handleChatMessage_settled :: "js_error + jsvalue \<Rightarrow> ext_state \<Rightarrow> ext_state" where
  "handleChatMessage_settled outcome st =
     (case inFlight st of
        [] \<Rightarrow> st
      | request # others \<Rightarrow>
          (let st1 = st\<lparr>inFlight := others\<rparr>
           in case and_then outcome response_text of
                Inl error \<Rightarrow> postMessage (ChatError ''AI request failed: '' (Some error)) st1
              | Inr aiText \<Rightarrow>
                  postMessage (AiResponse aiText)
                    (st1\<lparr>conversationHistory :=
                           conversationHistory st1 @ [\<lparr>turn_role = Assistant, turn_text = aiText\<rparr>]\<rparr>)))"

text \<open>
  The messages of the chat view (\<^verbatim>\<open>onDidReceiveMessage\<close> in \<^verbatim>\<open>resolveWebviewView\<close>) and the
  settling of a request are the events of a chat session.
\<close>

datatype chat_event =
    SendMessage string
  | ClearChat
  | StopStream
  | Settled "js_error + jsvalue"

definition stop_notice :: string where
  "stop_notice = [CHR 0x0A, CHR 0x0A] @ ''_[Response stopped by user]_''"

definition chat_step :: "env \<Rightarrow> ext_state \<Rightarrow> chat_event \<Rightarrow> ext_state" where
  "chat_step e st ev =
     (case ev of
        SendMessage message \<Rightarrow> handleChatMessage_send message e st
      | ClearChat \<Rightarrow> postMessage ClearChatMessage (st\<lparr>conversationHistory := []\<rparr>)
      | StopStream \<Rightarrow>
          (case currentStreamController st of
             None \<Rightarrow> st
           | Some controller \<Rightarrow>
               postMessage (StreamStopped stop_notice)
                 (st\<lparr>aborted := aborted st @ [controller], currentStreamController := None\<rparr>))
      | Settled outcome \<Rightarrow> handleChatMessage_settled outcome st)"

definition run_chat :: "env \<Rightarrow> ext_state \<Rightarrow> chat_event list \<Rightarrow> ext_state" where
  "run_chat e st evs = foldl (chat_step e) st evs"

text \<open>
  The session in the specification's words: cancelling while a request is outstanding
  appends the notice, and the cancelled request contributes no assistant turn.
\<close>

definition is_stop_notice :: "webview_message \<Rightarrow> bool" where
  "is_stop_notice m = (case m of StreamStopped t \<Rightarrow> True | _ \<Rightarrow> False)"

definition assistant_turns :: "ext_state \<Rightarrow> turn list" where
  "assistant_turns st = filter (\<lambda>t. turn_role t = Assistant) (conversationHistory st)"

section \<open>Auxiliary notions for the properties\<close>

text \<open>
  ``No parseable JSON array is found, or the extracted substring fails JSON parsing'',
  for the pattern of each path.
\<close>

definition full_parse_fails :: "string \<Rightarrow> bool" where
  "full_parse_fails text =
     (case match_greedy text of None \<Rightarrow> True | Some m \<Rightarrow> JSON_parse m = None)"

definition quick_parse_fails :: "string \<Rightarrow> bool" where
  "quick_parse_fails text =
     (case match_lazy text of None \<Rightarrow> True | Some m \<Rightarrow> JSON_parse m = None)"

text \<open>
  The strings of the model hold code units below 256, and \<open>hex4\<close> reads a \<^verbatim>\<open>\u\<close> escape
  modulo 256. A JSON text is parsed exactly as \<^verbatim>\<open>JSON.parse\<close> does when each of its \<^verbatim>\<open>\u\<close>
  escapes denotes a code unit below 256, that is, starts with \<^verbatim>\<open>\u00\<close>. The test looks at
  every backslash followed by \<^verbatim>\<open>u\<close>, also where it is no escape.
\<close>

fun wide_escape_free :: "string \<Rightarrow> bool" where
  "wide_escape_free (b # u # h3 # h2 # cs) =
     ((if b = CHR 0x5C \<and> u = CHR ''u''
       then (case (hex_val h3, hex_val h2) of (Some x, Some y) \<Rightarrow> x = 0 \<and> y = 0 | _ \<Rightarrow> True)
       else True)
      \<and> wide_escape_free (u # h3 # h2 # cs))"
| "wide_escape_free cs = True"

text \<open>
  A response of the documented shape with one candidate that carries one text part, a
  document of five lines, an editor on it whose selection starts at line 2, and a state
  in which the API key is stored: the setting of the examples below.
\<close>

definition gemini_response :: "string \<Rightarrow> jsvalue" where
  "gemini_response t =
     JObj [(''candidates'',
            JArr [JObj [(''content'', JObj [(''parts'', JArr [JObj [(''text'', JStr t)]])])]])]"

definition example_document :: document where
  "example_document =
     \<lparr>uri = ''file:///a.js'', fileName = ''/work/a.js'', languageId = ''javascript'',
      lineTexts = [''let a;'', ''let b;'', ''a.x = 1;'', ''b.y = 2;'', ''done();''],
      getText = (\<lambda>r. ''a.x = 1;'')\<rparr>"

definition example_selection :: Range where
  "example_selection = \<lparr>start_line = 2, start_character = 0, end_line = 2, end_character = 8\<rparr>"

definition example_env :: "jsvalue \<Rightarrow> env" where
  "example_env data =
     \<lparr>activeTextEditor = Some (example_document, example_selection), inputBox = None,
      http = Inr data, editApplied = True\<rparr>"

definition keyed_state :: ext_state where
  "keyed_state = initial_state\<lparr>config_apiKey := Some ''key''\<rparr>"

definition example_issue :: jsvalue where
  "example_issue =
     JObj [(''line'', JNum 3), (''message'', JStr ''Null pointer dereference risk''),
           (''severity'', JStr ''error'')]"

definition example_text :: string where
  \<open>example_text = ''[{"line":3,"message":"Null pointer dereference risk","severity":"error"}]''\<close>


definition example_diagnostic :: "nat \<Rightarrow> Diagnostic" where
  "example_diagnostic i =
     \<lparr>d_id = i,
      d_range = \<lparr>start_line = 2, start_character = 0, end_line = 2, end_character = 8\<rparr>,
      d_message = Some (JStr ''Null pointer dereference risk''),
      d_severity = Error, d_source = ''AI Copilot''\<rparr>"

definition reviewed_state :: ext_state where
  "reviewed_state =
     keyed_state\<lparr>diagnosticCollection :=
                    (\<lambda>u. [])(uri example_document := [example_diagnostic 0, example_diagnostic 1]),
                 next_id := 2\<rparr>"

definition chat_env :: env where
  "chat_env = \<lparr>activeTextEditor = None, inputBox = None,
               http = Inl (AxiosError None ''unused''), editApplied = False\<rparr>"

section \<open>Properties of the coordinate mapping and of the severity mapping\<close>

lemma ToNumber_line_or_1:
  "effective_line line = Some k \<Longrightarrow> ToNumber (line_or_1 line) = Inr (Num (of_int k))"
  by (cases line rule: effective_line.cases)
     (auto simp: line_or_1_def ToNumber_def split: if_splits)

text \<open>
  Claim C1, as the code has it. For a document with at least one line and an issue whose
  line is an integer (zero, negative, in range or far beyond the document) or is missing,
  \<^verbatim>\<open>null\<close>, \<^verbatim>\<open>false\<close> or the empty string, the line of the diagnostic is
  \<open>clamp (k - 1 + startLine) 0 (lineCount - 1)\<close>, where \<open>k\<close> is the line itself, or 1 when
  the line is missing, falsy or the number 0; this value lies in \<open>[0, lineCount)\<close>.
\<close>

theorem absoluteLine_clamped:
  assumes "0 < n" and "effective_line line = Some k"
  shows "absoluteLine line startLine n
           = Inr (Num (of_int (clamp (k - 1 + int startLine) 0 (int n - 1))))
         \<and> 0 \<le> clamp (k - 1 + int startLine) 0 (int n - 1)
         \<and> clamp (k - 1 + int startLine) 0 (int n - 1) < int n"
proof -
  have "ToNumber (line_or_1 line) = Inr (Num (of_int k))"
    using assms(2) by (rule ToNumber_line_or_1)
  moreover have "(of_nat n - 1 :: rat) = of_int (int n - 1)"
    by simp
  moreover have "(of_int k - 1 + of_nat startLine :: rat) = of_int (k - 1 + int startLine)"
    by simp
  ultimately have "absoluteLine line startLine n
           = Inr (Num (of_int (clamp (k - 1 + int startLine) 0 (int n - 1))))"
    unfolding absoluteLine_def clamp_def
    by (simp only: sum.case js_sub.simps js_add.simps Math_min.simps Math_max.simps
                   of_int_min of_int_max of_int_0)
  moreover have "0 \<le> clamp (k - 1 + int startLine) 0 (int n - 1)"
    using assms(1) by (simp add: clamp_def)
  moreover have "clamp (k - 1 + int startLine) 0 (int n - 1) < int n"
    using assms(1) by (simp add: clamp_def)
  ultimately show ?thesis by simp
qed

text \<open>
  The rule at work in a document of five lines, for a selection that starts at line 2: a
  line far beyond the end, a negative line, a missing line and line 0.
\<close>

theorem absoluteLine_clamped_witness:
  "absoluteLine (Some (JNum 99)) 2 5 = Inr (Num 4)
   \<and> absoluteLine (Some (JNum (- 7))) 2 5 = Inr (Num 0)
   \<and> absoluteLine None 2 5 = Inr (Num 2)
   \<and> absoluteLine (Some (JNum 0)) 2 5 = Inr (Num 2)"
  using absoluteLine_clamped [of 5 "Some (JNum 99)" 99 2]
        absoluteLine_clamped [of 5 "Some (JNum (- 7))" "- 7" 2]
        absoluteLine_clamped [of 5 None 1 2]
        absoluteLine_clamped [of 5 "Some (JNum 0)" 1 2]
  by (simp add: clamp_def)

text \<open>
  Claim C1 as stated does not hold for a non-numeric line: the string \<^verbatim>\<open>"abc"\<close> is truthy,
  so \<^verbatim>\<open>issue.line || 1\<close> keeps it, and the arithmetic yields \<^verbatim>\<open>NaN\<close>, which \<^verbatim>\<open>Math.min\<close> and
  \<^verbatim>\<open>Math.max\<close> pass on. The result is not the clamped default (line 0 here) and is no
  line of the document: \<^verbatim>\<open>lineAt\<close> rejects it.
\<close>

theorem absoluteLine_non_numeric_counterexample:
  "absoluteLine (Some (JStr ''abc'')) 0 5 = Inr NaN
   \<and> spec_absoluteLine (Some (JStr ''abc'')) 0 5 = 0
   \<and> absoluteLine (Some (JStr ''abc'')) 0 5
       \<noteq> Inr (Num (spec_absoluteLine (Some (JStr ''abc'')) 0 5))
   \<and> lineAt \<lparr>uri = ''a.js'', fileName = ''a.js'', languageId = ''javascript'',
              lineTexts = [''a'', ''b'', ''c'', ''d'', ''e''], getText = (\<lambda>r. ''a'')\<rparr> NaN
       = Inl IllegalArgument"
  by (simp add: absoluteLine_def line_or_1_def ToNumber_def StringToNumber_def is_digit_def
                spec_absoluteLine_def lineAt_def)

text \<open>
  The number 0 is falsy as well: the code maps line 0 of a selection starting at line 3
  to line 3, where the rule with a default for missing and non-numeric lines only gives 2.
\<close>

lemma absoluteLine_zero_is_default:
  "absoluteLine (Some (JNum 0)) 3 10 = Inr (Num 3)
   \<and> spec_absoluteLine (Some (JNum 0)) 3 10 = 2"
  by (simp add: absoluteLine_def line_or_1_def ToNumber_def spec_absoluteLine_def)

text \<open>
  Whatever the line of an issue is, a diagnostic that gets built lies on a line of the
  document: \<^verbatim>\<open>lineAt\<close> has accepted the line.
\<close>

lemma lineAt_in_range:
  "lineAt doc n = Inr textLine \<Longrightarrow>
   start_line (line_range textLine) < lineCount doc
   \<and> end_line (line_range textLine) = start_line (line_range textLine)"
proof (cases n)
  case NaN
  then show "lineAt doc n = Inr textLine \<Longrightarrow> ?thesis" by (simp add: lineAt_def)
next
  case (Num r)
  assume a: "lineAt doc n = Inr textLine"
  with Num have r: "0 \<le> r" "r < of_nat (lineCount doc)" "of_int \<lfloor>r\<rfloor> = r"
    and t: "start_line (line_range textLine) = nat \<lfloor>r\<rfloor>"
           "end_line (line_range textLine) = nat \<lfloor>r\<rfloor>"
    by (auto simp: lineAt_def split: if_splits)
  from r have "\<lfloor>r\<rfloor> < int (lineCount doc)"
    by (simp add: floor_less_iff)
  moreover from r(1) have "0 \<le> \<lfloor>r\<rfloor>" by simp
  ultimately have "nat \<lfloor>r\<rfloor> < lineCount doc" by (simp add: nat_less_iff)
  with t show ?thesis by simp
qed

lemma diagnostic_line_in_range:
  "issue_to_diagnostic sev doc startLine i issue = Inr d \<Longrightarrow>
   start_line (d_range d) < lineCount doc"
  by (auto simp: issue_to_diagnostic_def and_then_def split: sum.splits if_splits
           dest: lineAt_in_range)

lemma map_issues_lines_in_range:
  "map_issues (issue_to_diagnostic sev doc startLine) n xs = Inr ds \<Longrightarrow>
   \<forall>d \<in> set ds. start_line (d_range d) < lineCount doc"
  by (induction xs arbitrary: n ds)
     (auto simp: and_then_def split: sum.splits dest: diagnostic_line_in_range)

text \<open>
  Claim C9, as the code has it. The mapping is total on both paths. \<^verbatim>\<open>reviewCode\<close> maps
  \<^verbatim>\<open>"error"\<close> to Error, \<^verbatim>\<open>"info"\<close> to Information and every other value, a missing one
  included, to Warning; \<^verbatim>\<open>quickReviewSelection\<close> maps \<^verbatim>\<open>"error"\<close> to Error and every other
  value, \<^verbatim>\<open>"info"\<close> included, to Warning.
\<close>

theorem severity_paths:
  "severity_full s = spec_severity s
   \<and> severity_quick s = (if s = Some (JStr ''error'') then Error else Warning)"
  by (simp add: severity_full_def severity_quick_def spec_severity_def)

theorem severity_paths_witness:
  "severity_full (Some (JStr ''info'')) = Information
   \<and> severity_full None = Warning
   \<and> severity_quick (Some (JStr ''error'')) = Error"
  using severity_paths [of "Some (JStr ''info'')"] severity_paths [of None]
        severity_paths [of "Some (JStr ''error'')"]
  by (simp add: spec_severity_def)

text \<open>
  Claim C9 as stated does not hold on the quick-review path: \<^verbatim>\<open>"info"\<close> becomes Warning
  there, not Information.
\<close>

theorem severity_quick_info_counterexample:
  "severity_quick (Some (JStr ''info'')) = Warning
   \<and> spec_severity (Some (JStr ''info'')) = Information"
  by (simp add: severity_quick_def spec_severity_def)

section \<open>Properties of the response parser\<close>

lemma getApiKey_stored:
  "has_key (config_apiKey st) \<Longrightarrow> \<exists>k. getApiKey e st = (Some k, st)"
  by (cases "config_apiKey st") (simp_all add: getApiKey_def has_key_def)

lemma response_text_gemini: "response_text (gemini_response t) = Inr (Some (JStr t))"
  by (simp add: response_text_def gemini_response_def and_then_def)

lemma parseIssues_full_fails:
  "full_parse_fails text \<Longrightarrow> parseIssues_full (Some (JStr text)) = Inr (JArr [])"
  by (auto simp: full_parse_fails_def parseIssues_full_def try_parse_full_def try_catch_def
           split: option.splits)

lemma parseIssues_quick_fails:
  "quick_parse_fails text \<Longrightarrow> parseIssues_quick (Some (JStr text)) = Inr []"
  by (auto simp: quick_parse_fails_def parseIssues_quick_def try_parse_quick_def try_catch_def
           split: option.splits)

lemma parseIssues_full_never_raises: "parseIssues_full r \<noteq> Inl err"
  by (auto simp: parseIssues_full_def try_catch_def split: sum.splits)

lemma parseIssues_quick_never_raises: "parseIssues_quick r \<noteq> Inl err"
  by (auto simp: parseIssues_quick_def try_catch_def split: sum.splits)

text \<open>
  Claim C2. When the pattern of a path finds no match in the raw text, or \<^verbatim>\<open>JSON.parse\<close>
  throws on the match, the parser of that path returns the empty issue list; on no input
  at all does either parser raise. The commands do not report the empty result as an
  error: \<^verbatim>\<open>reviewCode\<close> stores the empty diagnostic list and shows the information message
  ``No issues found!'', \<^verbatim>\<open>quickReviewSelection\<close> shows ``No critical issues found!'' and
  leaves the state as it is.
\<close>

theorem parse_failure_is_empty:
  "(full_parse_fails text \<longrightarrow> parseIssues_full (Some (JStr text)) = Inr (JArr []))
   \<and> (quick_parse_fails text \<longrightarrow> parseIssues_quick (Some (JStr text)) = Inr [])
   \<and> parseIssues_full r \<noteq> Inl err \<and> parseIssues_quick r \<noteq> Inl err
   \<and> (full_parse_fails text \<and> has_key (config_apiKey st) \<and> http e = Inr data
        \<and> response_text data = Inr (Some (JStr text))
      \<longrightarrow> reviewCode doc code startLine e st
            = notify (InformationMessage ''No issues found!'')
                (st\<lparr>diagnosticCollection := (diagnosticCollection st)(uri doc := [])\<rparr>))
   \<and> (quick_parse_fails text \<and> has_key (config_apiKey st) \<and> http e = Inr data
        \<and> response_text data = Inr (Some (JStr text))
        \<and> activeTextEditor e = Some editor \<and> getText doc (Some sel) \<noteq> []
      \<longrightarrow> quickReviewSelection doc (Some sel) e st
            = Inr (notify (InformationMessage ''No critical issues found!'') st))"
proof -
  have cf: "reviewCode doc code startLine e st
            = notify (InformationMessage ''No issues found!'')
                (st\<lparr>diagnosticCollection := (diagnosticCollection st)(uri doc := [])\<rparr>)"
    if "full_parse_fails text" "has_key (config_apiKey st)" "http e = Inr data"
       "response_text data = Inr (Some (JStr text))"
  proof -
    from that(2) obtain k where "getApiKey e st = (Some k, st)"
      using getApiKey_stored by blast
    with that parseIssues_full_fails [of "text"] show ?thesis
      by (simp add: reviewCode_def reviewCode_try_def and_then_def)
  qed
  have cq: "quickReviewSelection doc (Some sel) e st
            = Inr (notify (InformationMessage ''No critical issues found!'') st)"
    if "quick_parse_fails text" "has_key (config_apiKey st)" "http e = Inr data"
       "response_text data = Inr (Some (JStr text))"
       "activeTextEditor e = Some editor" "getText doc (Some sel) \<noteq> []"
  proof -
    from that(2) obtain k where "getApiKey e st = (Some k, st)"
      using getApiKey_stored by blast
    with that parseIssues_quick_fails [of "text"] show ?thesis
      by (simp add: quickReviewSelection_def quickReview_try_def and_then_def)
  qed
  from parseIssues_full_fails [of "text"] parseIssues_quick_fails [of "text"]
       parseIssues_full_never_raises [of r err] parseIssues_quick_never_raises [of r err] cf cq
  show ?thesis by blast
qed

text \<open>A reply whose bracketed part is no JSON, on both paths and through both commands.\<close>

theorem parse_failure_is_empty_witness:
  "parseIssues_full (Some (JStr ''Sorry: [not json]'')) = Inr (JArr [])
   \<and> parseIssues_quick (Some (JStr ''Sorry: [not json]'')) = Inr []
   \<and> reviewCode example_document ''code'' 0
        (example_env (gemini_response ''Sorry: [not json]'')) keyed_state
       = notify (InformationMessage ''No issues found!'')
           (keyed_state\<lparr>diagnosticCollection :=
                          (diagnosticCollection keyed_state)(uri example_document := [])\<rparr>)
   \<and> quickReviewSelection example_document (Some example_selection)
         (example_env (gemini_response ''Sorry: [not json]'')) keyed_state
       = Inr (notify (InformationMessage ''No critical issues found!'') keyed_state)"
proof -
  have a: "full_parse_fails ''Sorry: [not json]''" by code_simp
  have b: "quick_parse_fails ''Sorry: [not json]''" by code_simp
  have k: "has_key (config_apiKey keyed_state)"
    by (simp add: keyed_state_def initial_state_def has_key_def)
  have h: "http (example_env (gemini_response ''Sorry: [not json]''))
           = Inr (gemini_response ''Sorry: [not json]'')"
    by (simp add: example_env_def)
  have ed: "activeTextEditor (example_env (gemini_response ''Sorry: [not json]''))
            = Some (example_document, example_selection)"
    by (simp add: example_env_def)
  have g: "getText example_document (Some example_selection) \<noteq> []"
    by (simp add: example_document_def)
  show ?thesis
    using parse_failure_is_empty [of "''Sorry: [not json]''" undefined undefined keyed_state
            "example_env (gemini_response ''Sorry: [not json]'')"
            "gemini_response ''Sorry: [not json]''"
            example_document "''code''" 0 "(example_document, example_selection)"
            example_selection]
          a b k h ed g response_text_gemini [of "''Sorry: [not json]''"]
    by simp
qed

lemma match_greedy_surrounded:
  assumes "CHR ''['' \<notin> set pre" and "CHR '']'' \<notin> set post"
  shows "match_greedy (pre @ CHR ''['' # body @ '']'' @ post) = Some (CHR ''['' # body @ '']'')"
proof -
  have d: "dropWhile (\<lambda>c. c \<noteq> CHR ''['') (pre @ CHR ''['' # body @ '']'' @ post)
           = CHR ''['' # body @ '']'' @ post"
    using assms(1) by (induction pre) auto
  have r: "dropWhile (\<lambda>c. c \<noteq> CHR '']'') (rev (body @ '']'' @ post)) = CHR '']'' # rev body"
  proof -
    have "dropWhile (\<lambda>c. c \<noteq> CHR '']'') (rev post) = []"
      using assms(2) by (induction post) auto
    then show ?thesis by (simp add: dropWhile_append)
  qed
  show ?thesis
    unfolding match_greedy_def d using r by simp
qed

lemma match_lazy_surrounded:
  assumes "CHR ''['' \<notin> set pre" and "CHR '']'' \<notin> set body"
  shows "match_lazy (pre @ CHR ''['' # body @ '']'' @ post) = Some (CHR ''['' # body @ '']'')"
proof -
  have d: "dropWhile (\<lambda>c. c \<noteq> CHR ''['') (pre @ CHR ''['' # body @ '']'' @ post)
           = CHR ''['' # body @ '']'' @ post"
    using assms(1) by (induction pre) auto
  have t: "takeWhile (\<lambda>c. c \<noteq> CHR '']'') (body @ '']'' @ post) = body"
    using assms(2) by (induction body) auto
  show ?thesis
    unfolding match_lazy_def d using t by simp
qed

lemma quick_filter_well_typed:
  "well_typed_issue x \<Longrightarrow> quick_filter x = Inr (code_keeps x)"
  by (auto simp: well_typed_issue_def quick_filter_def code_keeps_def message_string_def
                 has_keyword_def and_then_def ToNumber_def
           split: jsvalue.splits option.splits)

lemma filter_issues_code_keeps:
  "list_all well_typed_issue xs \<Longrightarrow> filter_issues xs = Inr (filter code_keeps xs)"
  by (induction xs) (simp_all add: quick_filter_well_typed and_then_def)

text \<open>
  Claim C3, as the code has it. The raw text is a bracketed JSON array (with every
  \<^verbatim>\<open>\u\<close> escape below 256) after prose or fences that have no \<^verbatim>\<open>[\<close>. When no \<^verbatim>\<open>]\<close> follows
  the array, the parser of \<^verbatim>\<open>reviewCode\<close> yields exactly the elements of that array, in the
  order of the array. When the array has no \<^verbatim>\<open>]\<close> before its closing one, whatever follows
  it, and its elements are objects with a string message or none, the parser of
  \<^verbatim>\<open>quickReviewSelection\<close> yields exactly the elements that pass the quality filter (a
  message longer than 10 characters without keyword), in the order of the array.
\<close>

theorem extracts_surrounded_array:
  assumes "CHR ''['' \<notin> set pre" and "wide_escape_free body"
    and "JSON_parse (CHR ''['' # body @ '']'') = Some (JArr xs)"
  shows "(CHR '']'' \<notin> set post \<longrightarrow>
            parseIssues_full (Some (JStr (pre @ CHR ''['' # body @ '']'' @ post))) = Inr (JArr xs))
         \<and> (CHR '']'' \<notin> set body \<and> list_all well_typed_issue xs \<longrightarrow>
              parseIssues_quick (Some (JStr (pre @ CHR ''['' # body @ '']'' @ post)))
                = Inr (filter code_keeps xs))"
proof -
  have g: "match_greedy (pre @ CHR ''['' # body @ '']'' @ post) = Some (CHR ''['' # body @ '']'')"
    if "CHR '']'' \<notin> set post"
    using assms(1) that by (rule match_greedy_surrounded)
  have l: "match_lazy (pre @ CHR ''['' # body @ '']'' @ post) = Some (CHR ''['' # body @ '']'')"
    if "CHR '']'' \<notin> set body"
    using assms(1) that by (rule match_lazy_surrounded)
  have full: "parseIssues_full (Some (JStr (pre @ CHR ''['' # body @ '']'' @ post))) = Inr (JArr xs)"
    if "CHR '']'' \<notin> set post"
    using assms(3) g[OF that]
    by (simp add: parseIssues_full_def try_parse_full_def try_catch_def)
  have quick: "parseIssues_quick (Some (JStr (pre @ CHR ''['' # body @ '']'' @ post)))
                = Inr (filter code_keeps xs)"
    if "CHR '']'' \<notin> set body" "list_all well_typed_issue xs"
    using assms(3) l[OF that(1)] filter_issues_code_keeps[OF that(2)]
    by (simp add: parseIssues_quick_def try_parse_quick_def try_catch_def)
  from full quick show ?thesis by blast
qed

text \<open>
  The example of the specification, one issue in a fenced block between two sentences,
  through \<^verbatim>\<open>reviewCode\<close>; and two issues followed by prose with brackets through
  \<^verbatim>\<open>quickReviewSelection\<close>, which keeps the first and filters the second.
\<close>

theorem extracts_surrounded_array_witness:
  \<open>parseIssues_full (Some (JStr
       ((''Here is the review:'' @ [CHR 0x0A, CHR 0x60, CHR 0x60, CHR 0x60] @ ''json'' @ [CHR 0x0A])
        @ CHR ''['' # ''{"line":3,"message":"Null pointer dereference risk","severity":"error"}''
        @ '']'' @ ([CHR 0x0A, CHR 0x60, CHR 0x60, CHR 0x60, CHR 0x0A]
                   @ ''Let me know if you need more.''))))
     = Inr (JArr [JObj [(''line'', JNum 3), (''message'', JStr ''Null pointer dereference risk''),
                        (''severity'', JStr ''error'')]])
   \<and> parseIssues_quick (Some (JStr
       (''Review: ''
        @ CHR ''['' # ''{"line":3,"message":"Null pointer dereference risk","severity":"error"},{"line":4,"message":"Bad style"}''
        @ '']'' @ '' Fix a[i] first.'')))
     = Inr [JObj [(''line'', JNum 3), (''message'', JStr ''Null pointer dereference risk''),
                  (''severity'', JStr ''error'')]]\<close>
proof -
  have p: \<open>JSON_parse (CHR ''[''
              # ''{"line":3,"message":"Null pointer dereference risk","severity":"error"}'' @ '']'')
           = Some (JArr [JObj [(''line'', JNum 3),
                               (''message'', JStr ''Null pointer dereference risk''),
                               (''severity'', JStr ''error'')]])\<close>
    by code_simp
  have a: \<open>CHR ''['' \<notin> set (''Here is the review:'' @ [CHR 0x0A, CHR 0x60, CHR 0x60, CHR 0x60]
                               @ ''json'' @ [CHR 0x0A])\<close>
    by simp
  have b: \<open>CHR '']'' \<notin> set ([CHR 0x0A, CHR 0x60, CHR 0x60, CHR 0x60, CHR 0x0A]
                               @ ''Let me know if you need more.'')\<close>
    by simp
  have w: \<open>wide_escape_free
             ''{"line":3,"message":"Null pointer dereference risk","severity":"error"}''\<close>
    by code_simp
  have p2: \<open>JSON_parse (CHR ''[''
              # ''{"line":3,"message":"Null pointer dereference risk","severity":"error"},{"line":4,"message":"Bad style"}'' @ '']'')
           = Some (JArr [JObj [(''line'', JNum 3),
                               (''message'', JStr ''Null pointer dereference risk''),
                               (''severity'', JStr ''error'')],
                         JObj [(''line'', JNum 4), (''message'', JStr ''Bad style'')]])\<close>
    by code_simp
  have a2: \<open>CHR ''['' \<notin> set ''Review: ''\<close>
    by simp
  have c2: \<open>CHR '']'' \<notin> set ''{"line":3,"message":"Null pointer dereference risk","severity":"error"},{"line":4,"message":"Bad style"}''\<close>
    by simp
  have w2: \<open>wide_escape_free
             ''{"line":3,"message":"Null pointer dereference risk","severity":"error"},{"line":4,"message":"Bad style"}''\<close>
    by code_simp
  have t2: \<open>list_all well_typed_issue
              [JObj [(''line'', JNum 3), (''message'', JStr ''Null pointer dereference risk''),
                     (''severity'', JStr ''error'')],
               JObj [(''line'', JNum 4), (''message'', JStr ''Bad style'')]]\<close>
    by code_simp
  have f2: \<open>filter code_keeps
              [JObj [(''line'', JNum 3), (''message'', JStr ''Null pointer dereference risk''),
                     (''severity'', JStr ''error'')],
               JObj [(''line'', JNum 4), (''message'', JStr ''Bad style'')]]
            = [JObj [(''line'', JNum 3), (''message'', JStr ''Null pointer dereference risk''),
                     (''severity'', JStr ''error'')]]\<close>
    by code_simp
  show ?thesis
    using extracts_surrounded_array [OF a w p,
            of \<open>[CHR 0x0A, CHR 0x60, CHR 0x60, CHR 0x60, CHR 0x0A] @ ''Let me know if you need more.''\<close>] b
          extracts_surrounded_array [OF a2 w2 p2, of \<open>'' Fix a[i] first.''\<close>] c2 t2 f2
    by simp
qed

text \<open>
  Claim C3 as stated does not hold: a valid array followed by prose with a \<^verbatim>\<open>]\<close> is lost by
  \<^verbatim>\<open>reviewCode\<close> (the greedy match runs to the last \<^verbatim>\<open>]\<close> of the text and is no JSON), and a
  text that is nothing but a valid array is lost by \<^verbatim>\<open>quickReviewSelection\<close> when a message
  contains \<^verbatim>\<open>]\<close> (the lazy match stops there), although the filter would keep the issue.
\<close>

theorem extraction_counterexample:
  \<open>JSON_parse ''[{"line":1,"message":"Null pointer dereference risk","severity":"error"}]''
     = Some (JArr [JObj [(''line'', JNum 1), (''message'', JStr ''Null pointer dereference risk''),
                         (''severity'', JStr ''error'')]])
   \<and> parseIssues_full (Some (JStr
         (''[{"line":1,"message":"Null pointer dereference risk","severity":"error"}]''
          @ '' Fix a[i] first.''))) = Inr (JArr [])
   \<and> JSON_parse ''[{"line":1,"message":"Index arr[0] is out of bounds","severity":"error"}]''
     = Some (JArr [JObj [(''line'', JNum 1), (''message'', JStr ''Index arr[0] is out of bounds''),
                         (''severity'', JStr ''error'')]])
   \<and> filter_issues [JObj [(''line'', JNum 1), (''message'', JStr ''Index arr[0] is out of bounds''),
                          (''severity'', JStr ''error'')]]
     = Inr [JObj [(''line'', JNum 1), (''message'', JStr ''Index arr[0] is out of bounds''),
                  (''severity'', JStr ''error'')]]
   \<and> parseIssues_quick (Some (JStr
         ''[{"line":1,"message":"Index arr[0] is out of bounds","severity":"error"}]'')) = Inr []\<close>
  by code_simp

text \<open>
  Claim C8, as the code has it. On an array of issues that are objects with a string
  message or none, the quality filter keeps, in order, exactly the issues whose message
  is longer than 10 characters and whose lowercased message contains none of
  \<^verbatim>\<open>"comment"\<close>, \<^verbatim>\<open>"naming"\<close>, \<^verbatim>\<open>"style"\<close>; it discards the others, those without a message
  and those whose message has 10 characters or fewer included. This is the filter of the
  specification except for the messages of exactly 10 characters.
\<close>

theorem filter_issues_well_typed:
  "(list_all well_typed_issue xs \<longrightarrow> filter_issues xs = Inr (filter code_keeps xs))
   \<and> (message_string x = Some m \<longrightarrow> code_keeps x = (\<not> spec_discards m \<and> length m \<noteq> 10))
   \<and> (message_string x = None \<longrightarrow> \<not> code_keeps x)"
proof -
  have "list_all well_typed_issue xs \<Longrightarrow> filter_issues xs = Inr (filter code_keeps xs)"
    by (induction xs) (simp_all add: quick_filter_well_typed and_then_def)
  moreover have "message_string x = Some m \<Longrightarrow>
                 code_keeps x = (\<not> spec_discards m \<and> length m \<noteq> 10)"
    by (auto simp: code_keeps_def spec_discards_def)
  moreover have "message_string x = None \<Longrightarrow> \<not> code_keeps x"
    by (simp add: code_keeps_def)
  ultimately show ?thesis by blast
qed

theorem filter_issues_well_typed_witness:
  "filter_issues
     [JObj [(''line'', JNum 3), (''message'', JStr ''Null pointer dereference risk'')],
      JObj [(''message'', JStr ''Null deref'')],
      JObj [(''message'', JStr ''Bad Naming of the loop variable'')],
      JObj [(''line'', JNum 4)]]
   = Inr [JObj [(''line'', JNum 3), (''message'', JStr ''Null pointer dereference risk'')]]"
proof -
  have a: "list_all well_typed_issue
     [JObj [(''line'', JNum 3), (''message'', JStr ''Null pointer dereference risk'')],
      JObj [(''message'', JStr ''Null deref'')],
      JObj [(''message'', JStr ''Bad Naming of the loop variable'')],
      JObj [(''line'', JNum 4)]]"
    by code_simp
  have b: "filter code_keeps
     [JObj [(''line'', JNum 3), (''message'', JStr ''Null pointer dereference risk'')],
      JObj [(''message'', JStr ''Null deref'')],
      JObj [(''message'', JStr ''Bad Naming of the loop variable'')],
      JObj [(''line'', JNum 4)]]
     = [JObj [(''line'', JNum 3), (''message'', JStr ''Null pointer dereference risk'')]]"
    by code_simp
  show ?thesis
    using filter_issues_well_typed
            [of "[JObj [(''line'', JNum 3), (''message'', JStr ''Null pointer dereference risk'')],
                  JObj [(''message'', JStr ''Null deref'')],
                  JObj [(''message'', JStr ''Bad Naming of the loop variable'')],
                  JObj [(''line'', JNum 4)]]" JNull undefined] a b
    by simp
qed

text \<open>
  Claim C8 as stated does not hold for a message of exactly 10 characters without a
  keyword: the specification's filter keeps it, the code's \<^verbatim>\<open>length > 10\<close> discards it.
\<close>

theorem quality_filter_counterexample:
  \<open>length ''Null deref'' = 10
   \<and> \<not> spec_discards ''Null deref''
   \<and> quick_filter (JObj [(''line'', JNum 1), (''message'', JStr ''Null deref''),
                         (''severity'', JStr ''error'')]) = Inr False
   \<and> parseIssues_quick (Some (JStr ''[{"line":1,"message":"Null deref","severity":"error"}]''))
       = Inr []\<close>
  by code_simp

section \<open>Properties of the diagnostic set\<close>

lemma issue_to_diagnostic_ident:
  "issue_to_diagnostic sev doc sl i x = Inr d \<Longrightarrow>
   issue_to_diagnostic sev doc sl j x = Inr (d\<lparr>d_id := j\<rparr>)"
  by (auto simp: issue_to_diagnostic_def and_then_def split: sum.splits if_splits)

lemma content_d_id: "content (d\<lparr>d_id := j\<rparr>) = content d"
  by (simp add: content_def)

lemma map_issues_length:
  "map_issues f n xs = Inr ds \<Longrightarrow> length ds = length xs"
  by (induction xs arbitrary: n ds) (auto simp: and_then_def split: sum.splits)

lemma map_issues_content:
  "map_issues (issue_to_diagnostic sev doc sl) n xs = Inr ds \<Longrightarrow>
   \<exists>ds'. map_issues (issue_to_diagnostic sev doc sl) m xs = Inr ds'
         \<and> map content ds' = map content ds"
proof (induction xs arbitrary: n m ds)
  case Nil
  then show ?case by simp
next
  case (Cons x xs)
  from Cons.prems obtain d rest
    where d: "issue_to_diagnostic sev doc sl n x = Inr d"
      and rest: "map_issues (issue_to_diagnostic sev doc sl) (Suc n) xs = Inr rest"
      and ds: "ds = d # rest"
    by (auto simp: and_then_def split: sum.splits)
  from Cons.IH[OF rest, of "Suc m"] obtain rest'
    where r': "map_issues (issue_to_diagnostic sev doc sl) (Suc m) xs = Inr rest'"
      and c: "map content rest' = map content rest"
    by blast
  from issue_to_diagnostic_ident[OF d, of m] r' c ds show ?case
    by (simp add: and_then_def content_d_id)
qed

lemma map_issues_ids:
  "map_issues (issue_to_diagnostic sev doc sl) n xs = Inr ds \<Longrightarrow>
   map d_id ds = map (\<lambda>i. n + i) [0 ..< length xs]"
proof (induction xs arbitrary: n ds)
  case Nil
  then show ?case by simp
next
  case (Cons x xs)
  from Cons.prems obtain d rest
    where d: "issue_to_diagnostic sev doc sl n x = Inr d"
      and rest: "map_issues (issue_to_diagnostic sev doc sl) (Suc n) xs = Inr rest"
      and ds: "ds = d # rest"
    by (auto simp: and_then_def split: sum.splits)
  from d have "d_id d = n"
    by (auto simp: issue_to_diagnostic_def and_then_def split: sum.splits if_splits)
  with Cons.IH[OF rest] ds show ?case
    by (simp add: map_upt_Suc del: upt_Suc)
qed

lemma reviewCode_success:
  assumes "has_key (config_apiKey st)" and "http e = Inr data"
    and "response_text data = Inr r" and "parseIssues_full r = Inr (JArr xs)"
    and "map_issues (issue_to_diagnostic severity_full doc startLine) (next_id st) xs = Inr ds"
  shows "reviewCode doc code startLine e st
         = notify (if ds = [] then InformationMessage ''No issues found!''
                   else FoundMessage (length ds) ''issue(s)'')
             (st\<lparr>diagnosticCollection := (diagnosticCollection st)(uri doc := ds),
                 next_id := next_id st + length ds\<rparr>)"
proof -
  from assms(1) obtain k where "getApiKey e st = (Some k, st)"
    using getApiKey_stored by blast
  with assms(2-5) show ?thesis
    by (simp add: reviewCode_def reviewCode_try_def and_then_def)
qed

text \<open>
  Claim C4. A review pass of \<^verbatim>\<open>reviewCode\<close> (full document or explicit selection) that
  produces the diagnostic list \<open>ds\<close> from the issues \<open>xs\<close> of the model's answer stores
  exactly \<open>ds\<close> for the document, whatever was stored before, and touches no other
  document. Running the pass twice with the same answer leaves one diagnostic per issue,
  with the contents of \<open>ds\<close>: one copy of each.
\<close>

theorem reviewCode_replaces:
  assumes "has_key (config_apiKey st)" and "http e = Inr data"
    and "response_text data = Inr r" and "parseIssues_full r = Inr (JArr xs)"
    and "map_issues (issue_to_diagnostic severity_full doc startLine) (next_id st) xs = Inr ds"
  shows "diagnosticCollection (reviewCode doc code startLine e st)
           = (diagnosticCollection st)(uri doc := ds)
         \<and> length ds = length xs
         \<and> length (diagnosticCollection
                     (reviewCode doc code startLine e (reviewCode doc code startLine e st))
                     (uri doc)) = length xs
         \<and> map content (diagnosticCollection
                          (reviewCode doc code startLine e (reviewCode doc code startLine e st))
                          (uri doc)) = map content ds
         \<and> (\<forall>u. u \<noteq> uri doc \<longrightarrow>
               diagnosticCollection
                 (reviewCode doc code startLine e (reviewCode doc code startLine e st)) u
               = diagnosticCollection st u)"
proof -
  let ?st1 = "reviewCode doc code startLine e st"
  have s1: "?st1 = notify (if ds = [] then InformationMessage ''No issues found!''
                   else FoundMessage (length ds) ''issue(s)'')
             (st\<lparr>diagnosticCollection := (diagnosticCollection st)(uri doc := ds),
                 next_id := next_id st + length ds\<rparr>)"
    using assms by (rule reviewCode_success)
  have k1: "has_key (config_apiKey ?st1)"
    using assms(1) by (simp add: s1 notify_def)
  have n1: "next_id ?st1 = next_id st + length ds"
    by (simp add: s1 notify_def)
  from map_issues_content[OF assms(5), of "next_id ?st1"] obtain ds'
    where m2: "map_issues (issue_to_diagnostic severity_full doc startLine) (next_id ?st1) xs = Inr ds'"
      and c2: "map content ds' = map content ds"
    by blast
  have s2: "diagnosticCollection (reviewCode doc code startLine e ?st1)
            = (diagnosticCollection ?st1)(uri doc := ds')"
    using reviewCode_success[OF k1 assms(2,3,4) m2, of code] by (simp add: notify_def)
  have d1: "diagnosticCollection ?st1 = (diagnosticCollection st)(uri doc := ds)"
    by (simp add: s1 notify_def)
  have l: "length ds = length xs" using assms(5) by (rule map_issues_length)
  have l': "length ds' = length xs" using m2 by (rule map_issues_length)
  show ?thesis
    using d1 s2 c2 l l' by simp
qed

lemma quickReview_success:
  assumes "has_key (config_apiKey st)" and "http e = Inr data"
    and "response_text data = Inr r" and "activeTextEditor e = Some editor"
    and "getText doc (Some sel) \<noteq> []" and "parseIssues_quick r = Inr issues"
    and "map_issues (issue_to_diagnostic severity_quick doc (start_line sel)) (next_id st) issues
         = Inr ds"
  shows "\<exists>st1. quickReviewSelection doc (Some sel) e st = Inr st1
          \<and> diagnosticCollection st1
              = (diagnosticCollection st)(uri doc := diagnosticCollection st (uri doc) @ ds)
          \<and> config_apiKey st1 = config_apiKey st
          \<and> next_id st1 = next_id st + length ds"
proof -
  from assms(1) obtain k where k: "getApiKey e st = (Some k, st)"
    using getApiKey_stored by blast
  show ?thesis
  proof (cases "issues = []")
    case True
    with assms(7) have "ds = []" by simp
    with True k assms(2-6) show ?thesis
      by (simp add: quickReviewSelection_def quickReview_try_def and_then_def notify_def)
  next
    case False
    with k assms(2-7) show ?thesis
      by (simp add: quickReviewSelection_def quickReview_try_def and_then_def notify_def Let_def)
  qed
qed

text \<open>
  Claim C5. A quick review that produces the batch \<open>ds\<close> stores the diagnostics that were
  there followed by \<open>ds\<close>. Running it again with the same input on the resulting state
  stores the original diagnostics, then \<open>ds\<close>, then a second batch \<open>ds'\<close> of new
  diagnostics with the same contents as \<open>ds\<close>: nothing is removed and nothing is
  deduplicated.
\<close>

theorem quickReview_appends:
  assumes "has_key (config_apiKey st)" and "http e = Inr data"
    and "response_text data = Inr r" and "activeTextEditor e = Some editor"
    and "getText doc (Some sel) \<noteq> []" and "parseIssues_quick r = Inr issues"
    and "map_issues (issue_to_diagnostic severity_quick doc (start_line sel)) (next_id st) issues
         = Inr ds"
  shows "\<exists>st1 st2 ds'.
           quickReviewSelection doc (Some sel) e st = Inr st1
           \<and> diagnosticCollection st1
               = (diagnosticCollection st)(uri doc := diagnosticCollection st (uri doc) @ ds)
           \<and> quickReviewSelection doc (Some sel) e st1 = Inr st2
           \<and> diagnosticCollection st2
               = (diagnosticCollection st)(uri doc := diagnosticCollection st (uri doc) @ ds @ ds')
           \<and> map content ds' = map content ds
           \<and> length ds = length issues"
proof -
  from quickReview_success[OF assms] obtain st1
    where q1: "quickReviewSelection doc (Some sel) e st = Inr st1"
      and d1: "diagnosticCollection st1
               = (diagnosticCollection st)(uri doc := diagnosticCollection st (uri doc) @ ds)"
      and k1: "config_apiKey st1 = config_apiKey st"
      and n1: "next_id st1 = next_id st + length ds"
    by blast
  from map_issues_content[OF assms(7), of "next_id st1"] obtain ds'
    where m2: "map_issues (issue_to_diagnostic severity_quick doc (start_line sel)) (next_id st1)
                 issues = Inr ds'"
      and c2: "map content ds' = map content ds"
    by blast
  have hk: "has_key (config_apiKey st1)" using assms(1) k1 by simp
  from quickReview_success[OF hk assms(2-6) m2] obtain st2
    where q2: "quickReviewSelection doc (Some sel) e st1 = Inr st2"
      and d2: "diagnosticCollection st2
               = (diagnosticCollection st1)(uri doc := diagnosticCollection st1 (uri doc) @ ds')"
    by blast
  have "diagnosticCollection st2
        = (diagnosticCollection st)(uri doc := diagnosticCollection st (uri doc) @ ds @ ds')"
    using d1 d2 by simp
  with q1 d1 q2 c2 map_issues_length[OF assms(7)] show ?thesis by blast
qed

lemma example_parse_full: "parseIssues_full (Some (JStr example_text)) = Inr (JArr [example_issue])"
  by code_simp

lemma example_parse_quick: "parseIssues_quick (Some (JStr example_text)) = Inr [example_issue]"
  by code_simp

lemma example_full_diag:
  "map_issues (issue_to_diagnostic severity_full example_document 0) n [example_issue]
   = Inr [\<lparr>d_id = n,
            d_range = \<lparr>start_line = 2, start_character = 0, end_line = 2, end_character = 8\<rparr>,
            d_message = Some (JStr ''Null pointer dereference risk''),
            d_severity = Error, d_source = ''AI Copilot''\<rparr>]"
  by (simp add: issue_to_diagnostic_def and_then_def example_issue_def absoluteLine_def
                line_or_1_def ToNumber_def lineAt_def lineCount_def example_document_def
                severity_full_def)

lemma example_quick_diag:
  "map_issues (issue_to_diagnostic severity_quick example_document (start_line example_selection)) n
     [example_issue]
   = Inr [\<lparr>d_id = n,
            d_range = \<lparr>start_line = 4, start_character = 0, end_line = 4, end_character = 7\<rparr>,
            d_message = Some (JStr ''Null pointer dereference risk''),
            d_severity = Error, d_source = ''AI Copilot''\<rparr>]"
  by (simp add: issue_to_diagnostic_def and_then_def example_issue_def absoluteLine_def
                line_or_1_def ToNumber_def lineAt_def lineCount_def example_document_def
                severity_quick_def example_selection_def)

lemma keyed_has_key: "has_key (config_apiKey keyed_state)"
  by (simp add: keyed_state_def initial_state_def has_key_def)

text \<open>The example issue reviewed twice in the example document.\<close>

theorem reviewCode_replaces_witness:
  "diagnosticCollection
     (reviewCode example_document ''code'' 0 (example_env (gemini_response example_text)) keyed_state)
     (uri example_document)
   = [\<lparr>d_id = 0,
        d_range = \<lparr>start_line = 2, start_character = 0, end_line = 2, end_character = 8\<rparr>,
        d_message = Some (JStr ''Null pointer dereference risk''),
        d_severity = Error, d_source = ''AI Copilot''\<rparr>]
   \<and> map content
        (diagnosticCollection
          (reviewCode example_document ''code'' 0 (example_env (gemini_response example_text))
            (reviewCode example_document ''code'' 0 (example_env (gemini_response example_text))
               keyed_state))
          (uri example_document))
     = [(\<lparr>start_line = 2, start_character = 0, end_line = 2, end_character = 8\<rparr>,
         Some (JStr ''Null pointer dereference risk''), Error, ''AI Copilot'')]"
proof -
  have h: "http (example_env (gemini_response example_text)) = Inr (gemini_response example_text)"
    by (simp add: example_env_def)
  have n: "next_id keyed_state = 0"
    by (simp add: keyed_state_def initial_state_def)
  show ?thesis
    using reviewCode_replaces [OF keyed_has_key h response_text_gemini example_parse_full
            example_full_diag [of "next_id keyed_state"], of "''code''"] n
    by (simp add: content_def)
qed

text \<open>The example issue quick-reviewed twice on the selection that starts at line 2.\<close>

theorem quickReview_appends_witness:
  "\<exists>st1 st2 ds'.
     quickReviewSelection example_document (Some example_selection)
        (example_env (gemini_response example_text)) keyed_state = Inr st1
     \<and> diagnosticCollection st1 (uri example_document)
         = [\<lparr>d_id = 0,
              d_range = \<lparr>start_line = 4, start_character = 0, end_line = 4, end_character = 7\<rparr>,
              d_message = Some (JStr ''Null pointer dereference risk''),
              d_severity = Error, d_source = ''AI Copilot''\<rparr>]
     \<and> quickReviewSelection example_document (Some example_selection)
        (example_env (gemini_response example_text)) st1 = Inr st2
     \<and> diagnosticCollection st2 (uri example_document)
         = \<lparr>d_id = 0,
              d_range = \<lparr>start_line = 4, start_character = 0, end_line = 4, end_character = 7\<rparr>,
              d_message = Some (JStr ''Null pointer dereference risk''),
              d_severity = Error, d_source = ''AI Copilot''\<rparr> # ds'
     \<and> map content ds'
         = [(\<lparr>start_line = 4, start_character = 0, end_line = 4, end_character = 7\<rparr>,
             Some (JStr ''Null pointer dereference risk''), Error, ''AI Copilot'')]"
proof -
  have h: "http (example_env (gemini_response example_text)) = Inr (gemini_response example_text)"
    by (simp add: example_env_def)
  have ed: "activeTextEditor (example_env (gemini_response example_text))
            = Some (example_document, example_selection)"
    by (simp add: example_env_def)
  have g: "getText example_document (Some example_selection) \<noteq> []"
    by (simp add: example_document_def)
  have n: "next_id keyed_state = 0" "diagnosticCollection keyed_state (uri example_document) = []"
    by (simp_all add: keyed_state_def initial_state_def)
  show ?thesis
    using quickReview_appends [OF keyed_has_key h response_text_gemini ed g example_parse_quick
            example_quick_diag [of "next_id keyed_state"]] n
    by (auto simp: content_def)
qed

text \<open>
  The review of the whole file and the review of the selection are \<^verbatim>\<open>reviewCode\<close> on the
  whole text from line 0 and on the selected text from the line where the selection
  starts.
\<close>

lemma reviewDocument_is_reviewCode:
  "languageId doc \<in> set supportedLanguages \<Longrightarrow>
   reviewDocument doc e st = reviewCode doc (getText doc None) 0 e st"
  by (simp add: reviewDocument_def)

lemma reviewSelectedCode_is_reviewCode:
  "activeTextEditor e = Some (doc, sel) \<Longrightarrow> getText doc (Some sel) \<noteq> [] \<Longrightarrow>
   reviewSelectedCode e st = reviewCode doc (getText doc (Some sel)) (start_line sel) e st"
  by (simp add: reviewSelectedCode_def Let_def)

text \<open>
  However a quick review ends, the diagnostics that were there are still there, in front
  of what it added.
\<close>

lemma getApiKey_collection:
  "getApiKey e st = (k, st1) \<Longrightarrow> diagnosticCollection st1 = diagnosticCollection st"
  by (auto simp: getApiKey_def notify_def split: if_splits)

lemma collection_append_nothing:
  "\<exists>batch. diagnosticCollection st
           = (diagnosticCollection st)(uri doc := diagnosticCollection st (uri doc) @ batch)"
  by (rule exI[of _ "[]"]) simp

lemma quickReview_try_keeps_existing:
  "quickReview_try doc sel e st = Inr st' \<Longrightarrow>
   \<exists>batch. diagnosticCollection st'
            = (diagnosticCollection st)(uri doc := diagnosticCollection st (uri doc) @ batch)"
  using collection_append_nothing[of st doc]
  by (auto simp: quickReview_try_def and_then_def notify_def Let_def split: sum.splits if_splits)

lemma quickReview_keeps_existing:
  "quickReviewSelection doc selection e st = Inr st' \<Longrightarrow>
   \<exists>batch. diagnosticCollection st'
            = (diagnosticCollection st)(uri doc := diagnosticCollection st (uri doc) @ batch)"
proof -
  assume a: "quickReviewSelection doc selection e st = Inr st'"
  obtain k st1 where g: "getApiKey e st = (k, st1)" by (cases "getApiKey e st")
  then have c: "diagnosticCollection st1 = diagnosticCollection st" by (rule getApiKey_collection)
  from a g have
    "st' = notify (WarningMessage ''No code selected!'') st
     \<or> st' = st1
     \<or> (\<exists>err. st' = notify (ErrorMessage ''Review failed: '' (Some err)) st1)
     \<or> (\<exists>sel. quickReview_try doc sel e st1 = Inr st')"
    by (auto simp: quickReviewSelection_def and_then_def
             split: sum.splits if_splits option.splits prod.splits)
  then consider
      (frame) "diagnosticCollection st' = diagnosticCollection st"
    | (review) sel where "quickReview_try doc sel e st1 = Inr st'"
    using c by (auto simp: notify_def)
  then show ?thesis
  proof cases
    case frame
    with collection_append_nothing[of st doc] show ?thesis by simp
  next
    case review
    from quickReview_try_keeps_existing[OF this] c show ?thesis by simp
  qed
qed

section \<open>Properties of applying a fix\<close>

lemma filter_id_remove1:
  "distinct (map d_id xs) \<Longrightarrow> D \<in> set xs \<Longrightarrow>
   filter (\<lambda>d. d_id d \<noteq> d_id D) xs = remove1 D xs"
proof (induction xs)
  case Nil
  then show ?case by simp
next
  case (Cons x xs)
  show ?case
  proof (cases "x = D")
    case True
    with Cons.prems(1) have "d_id D \<notin> d_id ` set xs" by simp
    then have "\<forall>d \<in> set xs. d_id d \<noteq> d_id D" by (metis imageI)
    then have "filter (\<lambda>d. d_id d \<noteq> d_id D) xs = xs" by (simp add: filter_id_conv)
    with True show ?thesis by simp
  next
    case False
    with Cons.prems have "D \<in> set xs" and "d_id x \<noteq> d_id D" by auto
    with Cons False show ?thesis by simp
  qed
qed

lemma applyAIFix_edit_branch:
  assumes "has_key (config_apiKey st)"
    and "lineAt doc (Num (of_nat (start_line (d_range D)))) = Inr textLine"
    and "http e = Inr data" and "fixedCode_of data = Inr fixedCode"
    and "activeTextEditor e = Some editor" and "uri (fst editor) = uri doc"
  shows "applyAIFix doc D e st
         = (notify (InformationMessage ''AI fix applied!'')
              (if editApplied e
               then st\<lparr>edits := edits st @ [(uri doc, d_range D, fixedCode)]\<rparr> else st))
           \<lparr>diagnosticCollection :=
              (diagnosticCollection st)
                (uri doc := filter (\<lambda>d. d_id d \<noteq> d_id D) (diagnosticCollection st (uri doc)))\<rparr>"
proof -
  from assms(1) obtain k where "getApiKey e st = (Some k, st)"
    using getApiKey_stored by blast
  with assms(2-6) show ?thesis
    by (simp add: applyAIFix_def applyAIFix_try_def and_then_def Let_def notify_def)
qed

lemma applyAIFix_not_active:
  assumes "has_key (config_apiKey st)"
    and "lineAt doc (Num (of_nat (start_line (d_range D)))) = Inr textLine"
    and "http e = Inr data" and "fixedCode_of data = Inr fixedCode"
    and "activeTextEditor e = None \<or> (\<exists>editor. activeTextEditor e = Some editor \<and> uri (fst editor) \<noteq> uri doc)"
  shows "applyAIFix doc D e st = st"
proof -
  from assms(1) obtain k where "getApiKey e st = (Some k, st)"
    using getApiKey_stored by blast
  with assms(2-5) show ?thesis
    by (auto simp: applyAIFix_def applyAIFix_try_def and_then_def)
qed

lemma fixedCode_of_well_formed:
  "well_formed_response data \<Longrightarrow> fixedCode_of data = Inl TypeError"
proof -
  assume "well_formed_response data"
  then obtain kvs where d: "data = JObj kvs"
    by (cases data) (simp_all add: well_formed_response_def)
  with \<open>well_formed_response data\<close> obtain c where c: "map_of (rev kvs) ''candidates'' = Some c"
    by (cases "map_of (rev kvs) ''candidates''") (simp_all add: well_formed_response_def)
  with \<open>well_formed_response data\<close> d obtain cs where "c = JArr cs"
    by (cases c) (simp_all add: well_formed_response_def)
  with d c show ?thesis
    by (simp add: fixedCode_of_def and_then_def)
qed

lemma getApiKey_frame:
  "diagnosticCollection (snd (getApiKey e st)) = diagnosticCollection st
   \<and> edits (snd (getApiKey e st)) = edits st"
  by (simp add: getApiKey_def notify_def)

text \<open>
  Claim C10. On a response of the documented shape the access path of \<^verbatim>\<open>applyAIFix\<close>,
  \<^verbatim>\<open>response.data.candidates.content.parts.text\<close>, throws a TypeError: \<^verbatim>\<open>candidates\<close> is an
  array and has no \<^verbatim>\<open>content\<close>. The command then changes neither the diagnostics nor any
  document, and with a stored key its whole effect is the error message ``Fix failed''
  (with the error of \<^verbatim>\<open>lineAt\<close> when the line of the diagnostic no longer exists, which is
  thrown before the request).
\<close>

theorem applyAIFix_well_formed_fails:
  assumes "well_formed_response data" and "http e = Inr data"
  shows "fixedCode_of data = Inl TypeError
         \<and> diagnosticCollection (applyAIFix doc D e st) = diagnosticCollection st
         \<and> edits (applyAIFix doc D e st) = edits st
         \<and> (has_key (config_apiKey st) \<longrightarrow>
              applyAIFix doc D e st
              = notify (ErrorMessage ''Fix failed: ''
                          (Some (case lineAt doc (Num (of_nat (start_line (d_range D)))) of
                                   Inl err \<Rightarrow> err | Inr textLine \<Rightarrow> TypeError))) st)"
proof -
  have f: "fixedCode_of data = Inl TypeError"
    using assms(1) by (rule fixedCode_of_well_formed)
  have t: "applyAIFix_try doc D e s
           = Inl (case lineAt doc (Num (of_nat (start_line (d_range D)))) of
                    Inl err \<Rightarrow> err | Inr textLine \<Rightarrow> TypeError)" for s
    using f assms(2) by (simp add: applyAIFix_try_def and_then_def split: sum.splits)
  have fr: "diagnosticCollection (applyAIFix doc D e st) = diagnosticCollection st
            \<and> edits (applyAIFix doc D e st) = edits st"
    using getApiKey_frame[of e st] t
    by (cases "getApiKey e st") (auto simp: applyAIFix_def notify_def split: option.splits)
  have k: "applyAIFix doc D e st
           = notify (ErrorMessage ''Fix failed: ''
                       (Some (case lineAt doc (Num (of_nat (start_line (d_range D)))) of
                                Inl err \<Rightarrow> err | Inr textLine \<Rightarrow> TypeError))) st"
    if "has_key (config_apiKey st)"
  proof -
    from that obtain k where "getApiKey e st = (Some k, st)"
      using getApiKey_stored by blast
    with t show ?thesis by (simp add: applyAIFix_def)
  qed
  from f fr k show ?thesis by blast
qed

lemma lineAt_example:
  "lineAt example_document (Num (of_nat (start_line (d_range (example_diagnostic i)))))
   = Inr \<lparr>line_text = ''a.x = 1;'',
          line_range = \<lparr>start_line = 2, start_character = 0, end_line = 2, end_character = 8\<rparr>\<rparr>"
  by (simp add: lineAt_def lineCount_def example_document_def example_diagnostic_def)


lemma reviewed_has_key: "has_key (config_apiKey reviewed_state)"
  by (simp add: reviewed_state_def keyed_state_def initial_state_def has_key_def)

lemma well_formed_gemini: "well_formed_response (gemini_response t)"
  by (simp add: well_formed_response_def gemini_response_def is_candidate_def is_text_part_def)

text \<open>
  The response that the other commands read successfully makes \<^verbatim>\<open>applyAIFix\<close> fail.
\<close>

theorem applyAIFix_well_formed_fails_witness:
  "fixedCode_of (gemini_response ''a.x = 2;'') = Inl TypeError
   \<and> response_text (gemini_response ''a.x = 2;'') = Inr (Some (JStr ''a.x = 2;''))
   \<and> applyAIFix example_document (example_diagnostic 0)
        (example_env (gemini_response ''a.x = 2;'')) reviewed_state
     = notify (ErrorMessage ''Fix failed: '' (Some TypeError)) reviewed_state"
proof -
  have h: "http (example_env (gemini_response ''a.x = 2;'')) = Inr (gemini_response ''a.x = 2;'')"
    by (simp add: example_env_def)
  show ?thesis
    using applyAIFix_well_formed_fails [OF well_formed_gemini h,
            of example_document "example_diagnostic 0" reviewed_state]
          reviewed_has_key lineAt_example [of 0] response_text_gemini [of "''a.x = 2;''"]
    by simp
qed

section \<open>Properties of the chat\<close>

text \<open>
  No event of a chat session sets \<^verbatim>\<open>currentStreamController\<close>, so from the initial state
  on it stays \<^verbatim>\<open>null\<close>, stopping is a no-op and the notice is never posted.
\<close>

lemma chat_step_controller:
  "currentStreamController st = None \<Longrightarrow> currentStreamController (chat_step e st ev) = None"
  by (cases ev)
     (auto simp: chat_step_def handleChatMessage_send_def handleChatMessage_settled_def
                 getApiKey_def postMessage_def notify_def Let_def
           split: list.splits sum.splits option.splits)

lemma chat_step_no_notice:
  "currentStreamController st = None \<Longrightarrow> \<not> list_ex is_stop_notice (posted st) \<Longrightarrow>
   \<not> list_ex is_stop_notice (posted (chat_step e st ev))"
  by (cases ev)
     (auto simp: chat_step_def handleChatMessage_send_def handleChatMessage_settled_def
                 getApiKey_def postMessage_def notify_def Let_def is_stop_notice_def
           split: list.splits sum.splits option.splits)

lemma run_chat_never_stops:
  "currentStreamController st = None \<Longrightarrow> \<not> list_ex is_stop_notice (posted st) \<Longrightarrow>
   currentStreamController (run_chat e st evs) = None
   \<and> \<not> list_ex is_stop_notice (posted (run_chat e st evs))"
  unfolding run_chat_def
  by (induction evs arbitrary: st) (simp_all add: chat_step_controller chat_step_no_notice)

lemma stop_is_noop:
  "currentStreamController st = None \<Longrightarrow> chat_step e st StopStream = st"
  by (simp add: chat_step_def)

text \<open>
  Claim C7 against the code. \<^verbatim>\<open>currentStreamController\<close> starts as \<^verbatim>\<open>null\<close> and nothing in
  the extension assigns anything else to it, so the \<^verbatim>\<open>stopStream\<close> branch that aborts the
  request and posts the notice never runs. A message is sent, the user stops while the
  request is outstanding, then the request settles: stopping changes nothing and posts
  nothing, the request stays outstanding, and when it settles the assistant's turn is
  appended to the history and its text is posted to the chat view.
\<close>

theorem cancel_mid_request_evaluated:
  "run_chat chat_env keyed_state [SendMessage ''hi'', StopStream]
     = run_chat chat_env keyed_state [SendMessage ''hi'']
   \<and> posted (run_chat chat_env keyed_state [SendMessage ''hi'', StopStream]) = []
   \<and> inFlight (run_chat chat_env keyed_state [SendMessage ''hi'', StopStream])
       = [[(''user'', Some (JStr ''hi''))]]
   \<and> posted (run_chat chat_env keyed_state
               [SendMessage ''hi'', StopStream, Settled (Inr (gemini_response ''hello''))])
       = [AiResponse (Some (JStr ''hello''))]
   \<and> list_ex is_stop_notice
         (posted (run_chat chat_env keyed_state
               [SendMessage ''hi'', StopStream, Settled (Inr (gemini_response ''hello''))]))
       = False
   \<and> conversationHistory (run_chat chat_env keyed_state
               [SendMessage ''hi'', StopStream, Settled (Inr (gemini_response ''hello''))])
       = [\<lparr>turn_role = User, turn_text = Some (JStr ''hi'')\<rparr>,
          \<lparr>turn_role = Assistant, turn_text = Some (JStr ''hello'')\<rparr>]
   \<and> assistant_turns (run_chat chat_env keyed_state
               [SendMessage ''hi'', StopStream, Settled (Inr (gemini_response ''hello''))])
       = [\<lparr>turn_role = Assistant, turn_text = Some (JStr ''hello'')\<rparr>]
   \<and> aborted (run_chat chat_env keyed_state
               [SendMessage ''hi'', StopStream, Settled (Inr (gemini_response ''hello''))]) = []"
  by (simp add: run_chat_def chat_step_def handleChatMessage_send_def handleChatMessage_settled_def
                getApiKey_def has_key_def keyed_state_def initial_state_def chat_env_def
                fullPrompt_def context_window_def postMessage_def response_text_gemini
                and_then_def Let_def is_stop_notice_def assistant_turns_def)

end
